theory Spec2Isabelle
  imports Main
begin

section \<open>Python strings\<close>

text \<open>
  A Python \<open>str\<close> is modelled as a \<open>string\<close> with one \<open>char\<close> per code point, so
  the model covers texts whose code points are below 256.  The functions below follow
  \<open>str.isspace\<close>, \<open>str.lower\<close>, \<open>str.capitalize\<close>, \<open>str.strip\<close>, \<open>in\<close>,
  \<open>str.startswith\<close> and \<open>str.endswith\<close> on that range.
\<close>

definition is_space :: "char \<Rightarrow> bool" where
  "is_space c = ((of_char c :: nat) \<in> set [9, 10, 11, 12, 13, 28, 29, 30, 31, 32, 133, 160])"

definition lower_char :: "char \<Rightarrow> char" where
  "lower_char c =
     (let n = (of_char c :: nat)
      in if (65 \<le> n \<and> n \<le> 90) \<or> (192 \<le> n \<and> n \<le> 222 \<and> n \<noteq> 215)
         then char_of (n + 32) else c)"

text \<open>
  The upper-case forms of code points 181, 223 and 255 lie outside the 8-bit range;
  they are left as they are (no language name of the source host starts with them).
\<close>

definition upper_char :: "char \<Rightarrow> char" where
  "upper_char c =
     (let n = (of_char c :: nat)
      in if (97 \<le> n \<and> n \<le> 122) \<or> (224 \<le> n \<and> n \<le> 254 \<and> n \<noteq> 247)
         then char_of (n - 32) else c)"

definition lower :: "string \<Rightarrow> string" where
  "lower s = map lower_char s"

definition capitalize :: "string \<Rightarrow> string" where
  "capitalize s = (case s of [] \<Rightarrow> [] | c # cs \<Rightarrow> upper_char c # lower cs)"

definition strip :: "string \<Rightarrow> string" where
  "strip s = rev (dropWhile is_space (rev (dropWhile is_space s)))"

definition startswith :: "string \<Rightarrow> string \<Rightarrow> bool" where
  "startswith s p = (take (length p) s = p)"

definition endswith :: "string \<Rightarrow> string \<Rightarrow> bool" where
  "endswith s p = (length p \<le> length s \<and> drop (length s - length p) s = p)"

text \<open>\<open>contains sub s\<close> is Python's \<open>sub in s\<close>.\<close>

fun contains :: "string \<Rightarrow> string \<Rightarrow> bool" where
  "contains sub [] = (sub = [])"
| "contains sub (c # cs) = (startswith (c # cs) sub \<or> contains sub cs)"

text \<open>\<open>dedupe\<close> is \<open>list(dict.fromkeys(xs))\<close>: the first occurrence of each element stays.\<close>

fun dedupe_acc :: "'a list \<Rightarrow> 'a list \<Rightarrow> 'a list" where
  "dedupe_acc seen [] = []"
| "dedupe_acc seen (x # xs) =
     (if x \<in> set seen then dedupe_acc seen xs else x # dedupe_acc (x # seen) xs)"

definition dedupe :: "'a list \<Rightarrow> 'a list" where
  "dedupe xs = dedupe_acc [] xs"

text \<open>Decimal rendering of an integer, as an f-string renders it.\<close>

fun str_nat :: "nat \<Rightarrow> string" where
  "str_nat n =
     (if n < 10 then [char_of (48 + n)]
      else str_nat (n div 10) @ [char_of (48 + n mod 10)])"

declare str_nat.simps [simp del]

definition str_int :: "int \<Rightarrow> string" where
  "str_int i = (if i < 0 then CHR ''-'' # str_nat (nat (- i)) else str_nat (nat i))"

section \<open>Data model\<close>

datatype ProjectStatus =
  PENDING | ANALYSING | SKIPPED | COMPLETED | DEPLOYED | ALREADY_LIVE | FAILED

fun status_value :: "ProjectStatus \<Rightarrow> string" where
  "status_value PENDING = ''pending''"
| "status_value ANALYSING = ''analysing''"
| "status_value SKIPPED = ''skipped''"
| "status_value COMPLETED = ''completed''"
| "status_value DEPLOYED = ''deployed''"
| "status_value ALREADY_LIVE = ''already-live''"
| "status_value FAILED = ''failed''"

record Project =
  name :: string
  github_url :: string
  description :: string
  language :: string
  is_fork :: bool
  status :: string
  deploy_url :: string
  render_service_id :: string
  tech_stack :: "string list"
  category :: string
  skip_reason :: string
  error :: string
  completed_at :: string
  gif_url :: string
  existing_deploy_urls :: "string list"

text \<open>
  The manifest is the JSON document of \<open>manifest.json\<close>.  A ledger entry is a JSON
  object, a dict from keys to JSON values; \<open>projects\<close> is \<open>None\<close> when the document
  has no \<open>"projects"\<close> key.
\<close>

datatype jval = JNull | JBool bool | JNum int | JStr string | JArr "jval list"

type_synonym entry = "string \<rightharpoonup> jval"

record manifest =
  projects :: "(string \<rightharpoonup> entry) option"
  portfolio_url :: string
  last_run :: string

section \<open>Run-start reset pass\<close>

text \<open>\<open>data.get("status", "")\<close>.\<close>

definition entry_status :: "entry \<Rightarrow> jval" where
  "entry_status data = (case data ''status'' of None \<Rightarrow> JStr '''' | Some v \<Rightarrow> v)"

definition reset_statuses :: "ProjectStatus list" where
  "reset_statuses = [FAILED, PENDING, SKIPPED, ANALYSING, COMPLETED]"

text \<open>The body of the loop of \<open>reset_manifest_for_retry\<close>, on one entry.\<close>

definition reset_entry :: "entry \<Rightarrow> entry" where
  "reset_entry data =
     (if entry_status data \<in> set (map (JStr \<circ> status_value) reset_statuses)
      then data(''status'' \<mapsto> JStr (status_value PENDING),
                ''error'' \<mapsto> JStr '''',
                ''skip_reason'' \<mapsto> JStr '''')
      else data)"

text \<open>
  \<open>reset_manifest_for_retry\<close>: the loop runs over \<open>manifest.get("projects", {})\<close>, so
  a manifest without the key is returned as it is.
\<close>

definition reset_manifest_for_retry :: "manifest \<Rightarrow> manifest" where
  "reset_manifest_for_retry m =
     (case projects m of
        None \<Rightarrow> m
      | Some ps \<Rightarrow> m\<lparr>projects := Some (\<lambda>n. map_option reset_entry (ps n))\<rparr>)"

section \<open>Configuration, repositories and the outside world\<close>

text \<open>The module-level configuration read from the environment.\<close>

record config =
  GITHUB_USERNAME :: string
  GITHUB_TOKEN :: string
  RENDER_API_KEY :: string
  RENDER_OWNER_ID :: string
  SKIP_EXISTING :: bool
  DRY_RUN :: bool

definition SKIP_REPOS :: "string list" where
  "SKIP_REPOS = [''mathew-harvey'', ''.github'']"

text \<open>
  One element of the repository listing of the source host.  The fields that the host
  may send as \<open>null\<close> are options.
\<close>

record repo =
  repo_name :: string
  repo_html_url :: string
  repo_clone_url :: string
  repo_description :: "string option"
  repo_language :: "string option"
  repo_homepage :: "string option"
  repo_fork :: bool
  repo_archived :: bool
  repo_size :: int

text \<open>
  The answer to an HTTP request: a response with its status code and text, or an
  exception raised by the call, with its message.
\<close>

datatype http_result = Response int string | NetError string

text \<open>
  The answer to the file-tree request: an exception, or a response with its status
  code and its body; the body is \<open>None\<close> when decoding it or reading an item of it
  raises, and otherwise the \<open>(path, type)\<close> pairs of its \<open>"tree"\<close> list (empty when
  the key is absent).
\<close>

datatype tree_result = TreeError string | TreeResponse int "(string \<times> string) list option"

text \<open>
  What reading the deployment descriptor \<open>render.yaml\<close> gives: no file, an exception
  while opening, parsing or indexing it, a document without services, or its first
  service.
\<close>

record service =
  svc_type :: "string option"
  svc_runtime :: "string option"
  svc_buildCommand :: "string option"
  svc_startCommand :: "string option"
  svc_staticPublishPath :: "string option"

datatype descriptor = NoFile | ReadError string | NoServices | FirstService service

datatype prompt = Tier1Prompt string | Tier2Prompt string | FixPrompt string string

text \<open>
  The two shapes of the provider request.  A static site carries name, ownerId, repo,
  buildCommand and publishPath; a web service carries name, ownerId, repo, buildCommand,
  startCommand and runtime.  The constant entries (autoDeploy, branch, plan) are left out.
\<close>

datatype payload =
    StaticSite string string string string string
  | WebService string string string string string string

fun payload_name :: "payload \<Rightarrow> string" where
  "payload_name (StaticSite nm owner rp build publish) = nm"
| "payload_name (WebService nm owner rp build start runtime) = nm"

text \<open>
  The effects of the program, in the order they happen: a liveness GET, a file-tree
  GET, a clone (or pull) of a clone URL, the tier-0 quick fix of a repository, a run of
  the agent with a prompt and a turn budget, a push of a repository, a POST of a
  payload to the provider, and a sleep of so many seconds.
\<close>

datatype event =
    Get string
  | TreeGet string
  | Clone string
  | QuickFix string
  | Claude prompt nat
  | Push string
  | Post payload
  | Sleep int

text \<open>
  The outside world answers each effect.  The answers to the stateful calls are indexed
  by the number of earlier calls of the same kind: \<open>agent k\<close> is the success flag of
  the \<open>k\<close>-th run of the agent, \<open>render_post k\<close> the answer to the \<open>k\<close>-th POST.
  \<open>render_yaml k\<close> is what reading the descriptor gives, and \<open>utcnow k\<close> the time
  stamp, after \<open>k\<close> effects.  \<open>clone\<close> gives the message of the exception that
  cloning raises, if it does.
\<close>

record world =
  http_get :: "string \<Rightarrow> http_result"
  tree_get :: "string \<Rightarrow> tree_result"
  clone :: "string \<Rightarrow> string option"
  agent :: "nat \<Rightarrow> bool"
  render_yaml :: "nat \<Rightarrow> descriptor"
  render_post :: "nat \<Rightarrow> http_result"
  utcnow :: "nat \<Rightarrow> string"

fun is_Claude :: "event \<Rightarrow> bool" where
  "is_Claude (Claude p n) = True"
| "is_Claude e = False"

fun is_Post :: "event \<Rightarrow> bool" where
  "is_Post (Post p) = True"
| "is_Post e = False"

definition agent_runs :: "event list \<Rightarrow> nat" where
  "agent_runs t = length (filter is_Claude t)"

definition posts :: "event list \<Rightarrow> nat" where
  "posts t = length (filter is_Post t)"

text \<open>
  The exceptions that leave a function: a missing dict key, a missing constructor
  argument, and an exception that no handler catches.  \<open>IllTyped\<close> marks a ledger
  entry outside the model: one that holds, under the name of a field of \<open>Project\<close>,
  a JSON value of another type than the field's annotation.
\<close>

datatype py_error = KeyError string | TypeError string | Uncaught string | IllTyped string

section \<open>Liveness probe\<close>

text \<open>
  \<open>re.findall(r'https?://[^\s<>"]+', desc)\<close>.  \<open>match_url\<close> is the match of the
  pattern at the start of a text; \<open>findall_urls k\<close> scans a text whose first \<open>k\<close>
  characters belong to the match found last.
\<close>

definition url_char :: "char \<Rightarrow> bool" where
  "url_char c = (\<not> is_space c \<and> c \<noteq> CHR ''<'' \<and> c \<noteq> CHR ''>'' \<and> c \<noteq> CHR 0x22)"

definition match_url :: "string \<Rightarrow> string option" where
  "match_url s =
     (let scheme = (if startswith s ''https://'' then Some ''https://''
                    else if startswith s ''http://'' then Some ''http://''
                    else None)
      in case scheme of
           None \<Rightarrow> None
         | Some sc \<Rightarrow>
             (let rest = takeWhile url_char (drop (length sc) s)
              in if rest = [] then None else Some (sc @ rest)))"

fun findall_urls :: "nat \<Rightarrow> string \<Rightarrow> string list" where
  "findall_urls k [] = []"
| "findall_urls (Suc k) (c # cs) = findall_urls k cs"
| "findall_urls 0 (c # cs) =
     (case match_url (c # cs) of
        None \<Rightarrow> findall_urls 0 cs
      | Some m \<Rightarrow> m # findall_urls (length m - 1) cs)"

definition get_candidate_urls :: "config \<Rightarrow> repo \<Rightarrow> string list" where
  "get_candidate_urls cfg r =
     (let name = repo_name r;
          username = lower (GITHUB_USERNAME cfg);
          urls = [''https://'' @ username @ ''.github.io/'' @ name @ ''/'',
                  ''https://'' @ username @ ''.github.io/'' @ name,
                  ''https://mh-'' @ take 30 name @ ''.onrender.com'',
                  ''https://'' @ name @ ''.onrender.com''];
          urls = (case repo_homepage r of
                    None \<Rightarrow> urls
                  | Some homepage \<Rightarrow>
                      if homepage \<noteq> [] \<and> startswith homepage ''http''
                      then urls @ [homepage] else urls);
          desc = (case repo_description r of None \<Rightarrow> [] | Some d \<Rightarrow> d);
          found_urls = findall_urls 0 desc
      in dedupe (urls @ found_urls))"

definition error_signals :: "string list" where
  "error_signals = [''404'', ''not found'', ''page not found'', ''site not found'',
                    ''suspended'', ''there isn'' @ [CHR 0x27] @ ''t a github pages site'',
                    ''this page could not be found'', ''404.html'']"

text \<open>
  The decision of \<open>check_url_live\<close> on the answer to its GET, and the function itself,
  which adds the GET to the effects.
\<close>

definition live_response :: "http_result \<Rightarrow> bool" where
  "live_response r =
     (case r of
        NetError e \<Rightarrow> False
      | Response status_code text \<Rightarrow>
          if status_code \<ge> 400 then False
          else (let body = lower (take 2000 text)
                in if length (strip body) < 100 then False
                   else if list_ex (\<lambda>sig. contains sig body) error_signals then False
                   else True))"

definition check_url_live :: "world \<Rightarrow> string \<Rightarrow> event list \<Rightarrow> event list \<times> bool" where
  "check_url_live w url t = (t @ [Get url], live_response (http_get w url))"

text \<open>The loop of \<open>find_existing_deployment\<close> over the candidates.\<close>

fun probe_candidates :: "world \<Rightarrow> string list \<Rightarrow> event list \<Rightarrow> event list \<times> bool \<times> string" where
  "probe_candidates w [] t = (t, False, '''')"
| "probe_candidates w (url # urls) t =
     (case check_url_live w url t of
        (t', True) \<Rightarrow> (t', True, url)
      | (t', False) \<Rightarrow> probe_candidates w urls t')"

definition find_existing_deployment ::
    "world \<Rightarrow> config \<Rightarrow> repo \<Rightarrow> event list \<Rightarrow> event list \<times> bool \<times> string" where
  "find_existing_deployment w cfg r t = probe_candidates w (get_candidate_urls cfg r) t"

section \<open>Classifier\<close>

record classification =
  c_tier :: int
  c_deploy_type :: string
  c_category :: string
  c_tech_stack :: "string list"
  c_has_index_html :: bool
  c_has_package_json :: bool
  c_has_readme :: bool
  c_has_render_yaml :: bool
  c_has_server :: bool
  c_file_count :: nat

definition tree_url :: "config \<Rightarrow> string \<Rightarrow> string \<Rightarrow> string" where
  "tree_url cfg nm branch =
     ''https://api.github.com/repos/'' @ GITHUB_USERNAME cfg @ ''/'' @ nm
       @ ''/git/trees/'' @ branch @ ''?recursive=1''"

text \<open>
  The set \<open>files\<close> that a response gives: the lower-cased paths of the blobs of a 200
  response, kept as a list without repetitions; the empty set for any other status.
\<close>

definition files_of_response :: "int \<Rightarrow> (string \<times> string) list option \<Rightarrow> string list" where
  "files_of_response status_code body =
     (if status_code = 200
      then (case body of
              None \<Rightarrow> []
            | Some tree \<Rightarrow> dedupe (map (lower \<circ> fst) (filter (\<lambda>item. snd item = ''blob'') tree)))
      else [])"

text \<open>
  The first part of \<open>classify_repo_from_api\<close>: the file tree of branch main, of branch
  master when main answers 404; any exception leaves the set empty.
\<close>

definition fetch_files :: "world \<Rightarrow> config \<Rightarrow> repo \<Rightarrow> event list \<Rightarrow> event list \<times> string list" where
  "fetch_files w cfg r t =
     (let main_url = tree_url cfg (repo_name r) ''main'';
          t1 = t @ [TreeGet main_url]
      in case tree_get w main_url of
           TreeError e \<Rightarrow> (t1, [])
         | TreeResponse status_code body \<Rightarrow>
             if status_code = 404
             then (let master_url = tree_url cfg (repo_name r) ''master'';
                       t2 = t1 @ [TreeGet master_url]
                   in case tree_get w master_url of
                        TreeError e \<Rightarrow> (t2, [])
                      | TreeResponse status_code2 body2 \<Rightarrow> (t2, files_of_response status_code2 body2))
             else (t1, files_of_response status_code body))"

text \<open>The tech-stack list, built from the file evidence and the declared language.\<close>

definition build_tech_stack :: "string \<Rightarrow> string list \<Rightarrow> string list" where
  "build_tech_stack lang files =
     (let language = lang;
          has_html_files = list_ex (\<lambda>f. endswith f ''.html'') files;
          has_js_files = list_ex (\<lambda>f. endswith f ''.js'' \<or> endswith f ''.jsx''
                                     \<or> endswith f ''.ts'' \<or> endswith f ''.tsx'') files;
          has_py_files = list_ex (\<lambda>f. endswith f ''.py'') files;
          has_cs_files = list_ex (\<lambda>f. endswith f ''.cs'' \<or> endswith f ''.csproj'') files;
          has_react = (list_ex (\<lambda>f. contains ''react'' f) files
                       \<or> list_ex (\<lambda>f. endswith f ''.jsx'' \<or> endswith f ''.tsx'') files);
          tech_stack = [];
          tech_stack = (if has_html_files then tech_stack @ [''HTML''] else tech_stack);
          tech_stack = (if list_ex (\<lambda>f. endswith f ''.css'') files
                        then tech_stack @ [''CSS''] else tech_stack);
          tech_stack = (if has_js_files then tech_stack @ [''JavaScript''] else tech_stack);
          tech_stack = (if has_react then tech_stack @ [''React''] else tech_stack);
          tech_stack = (if has_py_files then tech_stack @ [''Python''] else tech_stack);
          tech_stack = (if has_cs_files then tech_stack @ [''C#''] else tech_stack)
      in if language \<noteq> [] \<and> capitalize language \<notin> set (map lower tech_stack)
         then capitalize language # tech_stack
         else tech_stack)"

text \<open>
  The second part of \<open>classify_repo_from_api\<close>: the signals, the deploy type, the
  category and the tier, from the lower-cased declared language and the set of files.
\<close>

definition classify_files :: "string \<Rightarrow> string list \<Rightarrow> classification" where
  "classify_files lang files =
     (let language = lang;
          has_index_html = list_ex (\<lambda>f. endswith f ''index.html'') files;
          has_package_json = (''package.json'' \<in> set files);
          has_requirements = (''requirements.txt'' \<in> set files);
          has_dockerfile = (''dockerfile'' \<in> set files \<or> ''Dockerfile'' \<in> set files);
          has_render_yaml = (''render.yaml'' \<in> set files);
          has_readme = (''readme.md'' \<in> set files \<or> ''README.md'' \<in> set files);
          has_html_files = list_ex (\<lambda>f. endswith f ''.html'') files;
          has_py_files = list_ex (\<lambda>f. endswith f ''.py'') files;
          has_cs_files = list_ex (\<lambda>f. endswith f ''.cs'' \<or> endswith f ''.csproj'') files;
          has_react = (list_ex (\<lambda>f. contains ''react'' f) files
                       \<or> list_ex (\<lambda>f. endswith f ''.jsx'' \<or> endswith f ''.tsx'') files);
          has_server = list_ex (\<lambda>n. n \<in> set files)
                         [''server.js'', ''app.js'', ''index.js'', ''server.py'', ''app.py'', ''main.py''];
          file_count = length files;
          tech_stack = build_tech_stack language files;
          deploy_type =
            (if has_cs_files then ''docker''
             else if has_py_files \<and> has_server then ''python''
             else if has_package_json \<and> has_server then ''node''
             else if has_package_json \<and> has_react then ''node''
             else if has_html_files \<or> has_index_html then ''static''
             else if has_package_json then ''node''
             else if has_py_files then ''python''
             else ''static'');
          category =
            (if has_react \<or> (has_package_json \<and> has_server) then ''web-app''
             else if has_server \<and> \<not> has_html_files then ''api''
             else if has_html_files \<and> \<not> has_package_json then ''static-site''
             else if has_py_files \<and> \<not> has_html_files then ''cli-tool''
             else if has_cs_files then ''api''
             else if language \<in> set [''html'', ''css'', ''javascript''] then ''static-site''
             else ''other'');
          tier =
            (if file_count \<le> 2 then 2
             else if deploy_type = ''static'' \<and> has_index_html \<and> \<not> has_package_json then 0
             else if deploy_type = ''static'' \<and> has_html_files \<and> \<not> has_package_json then 0
             else if has_render_yaml \<and> has_readme \<and> has_package_json then 1
             else if has_cs_files \<or> has_dockerfile then 2
             else if has_package_json \<and> \<not> has_server \<and> \<not> has_react then 2
             else 1)
      in \<lparr>c_tier = tier, c_deploy_type = deploy_type, c_category = category,
          c_tech_stack = tech_stack, c_has_index_html = has_index_html,
          c_has_package_json = has_package_json, c_has_readme = has_readme,
          c_has_render_yaml = has_render_yaml, c_has_server = has_server,
          c_file_count = file_count\<rparr>)"

definition classify_repo_from_api ::
    "world \<Rightarrow> config \<Rightarrow> repo \<Rightarrow> event list \<Rightarrow> event list \<times> classification" where
  "classify_repo_from_api w cfg r t =
     (let language = lower (case repo_language r of None \<Rightarrow> [] | Some l \<Rightarrow> l)
      in case fetch_files w cfg r t of (t', files) \<Rightarrow> (t', classify_files language files))"

section \<open>Deployment client\<close>

text \<open>\<open>svc.get(key, default)\<close> on a key of the service: \<open>None\<close> is an absent key.\<close>

definition get_or :: "string option \<Rightarrow> string \<Rightarrow> string" where
  "get_or v dflt = (case v of None \<Rightarrow> dflt | Some x \<Rightarrow> x)"

definition build_render_payload :: "config \<Rightarrow> Project \<Rightarrow> descriptor \<Rightarrow> py_error + payload" where
  "build_render_payload cfg project d =
     (let service_name = ''mh-'' @ take 30 (name project);
          static = (\<lambda>build_command publish_path.
                      StaticSite service_name (RENDER_OWNER_ID cfg) (github_url project)
                        build_command publish_path)
      in case d of
           NoFile \<Rightarrow> Inr (static '''' ''./'')
         | ReadError e \<Rightarrow> Inl (Uncaught e)
         | NoServices \<Rightarrow> Inr (static '''' ''./'')
         | FirstService svc \<Rightarrow>
             if svc_type svc = Some ''web'' \<and> svc_runtime svc \<notin> {Some ''static'', None}
             then Inr (WebService service_name (RENDER_OWNER_ID cfg) (github_url project)
                         (get_or (svc_buildCommand svc) ''npm install'')
                         (get_or (svc_startCommand svc) ''npm start'')
                         (get_or (svc_runtime svc) ''node''))
             else Inr (static (get_or (svc_buildCommand svc) '''')
                              (get_or (svc_staticPublishPath svc) ''./'')))"

definition service_url :: "string \<Rightarrow> string" where
  "service_url service_name = ''https://'' @ service_name @ ''.onrender.com''"

text \<open>
  The loop \<open>for api_attempt in range(3)\<close> of \<open>deploy_to_render\<close>, over the attempt
  numbers that are left, and the line after it.
\<close>

fun post_attempts ::
    "world \<Rightarrow> payload \<Rightarrow> nat list \<Rightarrow> event list \<Rightarrow> event list \<times> string option \<times> string" where
  "post_attempts w pl [] t = (t, None, ''Rate limit exceeded after retries'')"
| "post_attempts w pl (api_attempt # rest) t =
     (let t1 = t @ [Post pl]
      in case render_post w (posts t) of
           NetError e \<Rightarrow> (t1, None, e)
         | Response status_code text \<Rightarrow>
             if status_code \<in> {200, 201}
             then (t1, Some (service_url (payload_name pl)), '''')
             else if status_code = 429
             then (let wait_time = 30 * (int api_attempt + 1)
                   in post_attempts w pl rest (t1 @ [Sleep wait_time]))
             else (let error_text = take 500 text
                   in (t1, None, ''Render API '' @ str_int status_code @ '': '' @ error_text)))"

definition deploy_to_render ::
    "world \<Rightarrow> config \<Rightarrow> Project \<Rightarrow> event list
       \<Rightarrow> event list \<times> (py_error + string option \<times> string)" where
  "deploy_to_render w cfg project t =
     (if RENDER_API_KEY cfg = [] then (t, Inr (None, ''No RENDER_API_KEY set''))
      else case build_render_payload cfg project (render_yaml w (length t)) of
             Inl e \<Rightarrow> (t, Inl e)
           | Inr pl \<Rightarrow>
               if DRY_RUN cfg then (t, Inr (Some (service_url (payload_name pl)), ''''))
               else (case post_attempts w pl [0 ..< 3] t of (t', res) \<Rightarrow> (t', Inr res)))"

section \<open>Retry coordinator\<close>

definition rate_limited :: "string \<Rightarrow> bool" where
  "rate_limited err = (contains ''rate limit'' (lower err) \<or> contains ''Rate limit'' err)"

text \<open>
  The loop \<open>for attempt in range(1, max_retries + 1)\<close> of \<open>deploy_with_retry\<close>, over
  the attempt numbers that are left; every \<open>break\<close> leads to the final \<open>return None\<close>.
  The fix prompt is recorded by the two values it interpolates, the error text and the
  project name.
\<close>

fun retry_attempts ::
    "world \<Rightarrow> config \<Rightarrow> Project \<Rightarrow> int \<Rightarrow> int list \<Rightarrow> event list
       \<Rightarrow> event list \<times> (py_error + string option)" where
  "retry_attempts w cfg project max_retries [] t = (t, Inr None)"
| "retry_attempts w cfg project max_retries (attempt # rest) t =
     (case deploy_to_render w cfg project t of
        (t1, Inl e) \<Rightarrow> (t1, Inl e)
      | (t1, Inr res) \<Rightarrow>
          (let url = fst res; err = snd res
           in if url \<noteq> None \<and> url \<noteq> Some [] then (t1, Inr url)
              else if err = [] \<or> attempt \<ge> max_retries then (t1, Inr None)
              else if rate_limited err then (t1, Inr None)
              else (let t2 = t1 @ [Claude (FixPrompt err (name project)) 15]
                    in if agent w (agent_runs t1)
                       then retry_attempts w cfg project max_retries rest (t2 @ [Push (name project)])
                       else (t2, Inr None))))"

definition deploy_with_retry ::
    "world \<Rightarrow> config \<Rightarrow> Project \<Rightarrow> int \<Rightarrow> event list
       \<Rightarrow> event list \<times> (py_error + string option)" where
  "deploy_with_retry w cfg project max_retries t =
     retry_attempts w cfg project max_retries [1 .. max_retries] t"

section \<open>Orchestrator\<close>

definition should_skip_repo :: "repo \<Rightarrow> bool \<times> string" where
  "should_skip_repo r =
     (let nm = lower (repo_name r)
      in if nm \<in> set SKIP_REPOS then (True, ''In skip list'')
         else if repo_fork r then (True, ''Fork'')
         else if repo_archived r then (True, ''Archived'')
         else if repo_size r = 0 then (True, ''Empty repo'')
         else (False, ''''))"

text \<open>
  \<open>Project(**{k: v for k, v in existing.items() if k in Project.__dataclass_fields__})\<close>:
  the two fields without a default must be present, every other absent field takes its
  default, and keys that are no fields are dropped.
\<close>

definition str_keys :: "string list" where
  "str_keys = [''name'', ''github_url'', ''description'', ''language'', ''status'',
               ''deploy_url'', ''render_service_id'', ''category'', ''skip_reason'',
               ''error'', ''completed_at'', ''gif_url'']"

fun is_JStr :: "jval \<Rightarrow> bool" where
  "is_JStr (JStr s) = True"
| "is_JStr v = False"

fun is_JBool :: "jval \<Rightarrow> bool" where
  "is_JBool (JBool b) = True"
| "is_JBool v = False"

fun is_strs :: "jval \<Rightarrow> bool" where
  "is_strs (JArr vs) = list_all is_JStr vs"
| "is_strs v = False"

definition str_field :: "entry \<Rightarrow> string \<Rightarrow> string \<Rightarrow> string" where
  "str_field data k dflt = (case data k of Some (JStr s) \<Rightarrow> s | _ \<Rightarrow> dflt)"

definition bool_field :: "entry \<Rightarrow> string \<Rightarrow> bool \<Rightarrow> bool" where
  "bool_field data k dflt = (case data k of Some (JBool b) \<Rightarrow> b | _ \<Rightarrow> dflt)"

fun the_str :: "jval \<Rightarrow> string" where
  "the_str (JStr s) = s"
| "the_str v = []"

definition strs_field :: "entry \<Rightarrow> string \<Rightarrow> string list" where
  "strs_field data k = (case data k of Some (JArr vs) \<Rightarrow> map the_str vs | _ \<Rightarrow> [])"

definition ill_typed_keys :: "entry \<Rightarrow> string list" where
  "ill_typed_keys data =
     filter (\<lambda>k. case data k of None \<Rightarrow> False | Some v \<Rightarrow> \<not> is_JStr v) str_keys
     @ filter (\<lambda>k. case data k of None \<Rightarrow> False | Some v \<Rightarrow> \<not> is_JBool v) [''is_fork'']
     @ filter (\<lambda>k. case data k of None \<Rightarrow> False | Some v \<Rightarrow> \<not> is_strs v)
         [''tech_stack'', ''existing_deploy_urls'']"

definition project_of_entry :: "entry \<Rightarrow> py_error + Project" where
  "project_of_entry data =
     (if data ''name'' = None then Inl (TypeError ''name'')
      else if data ''github_url'' = None then Inl (TypeError ''github_url'')
      else (case ill_typed_keys data of
              k # ks \<Rightarrow> Inl (IllTyped k)
            | [] \<Rightarrow>
                Inr \<lparr>name = str_field data ''name'' '''',
                     github_url = str_field data ''github_url'' '''',
                     description = str_field data ''description'' '''',
                     language = str_field data ''language'' '''',
                     is_fork = bool_field data ''is_fork'' False,
                     status = str_field data ''status'' (status_value PENDING),
                     deploy_url = str_field data ''deploy_url'' '''',
                     render_service_id = str_field data ''render_service_id'' '''',
                     tech_stack = strs_field data ''tech_stack'',
                     category = str_field data ''category'' '''',
                     skip_reason = str_field data ''skip_reason'' '''',
                     error = str_field data ''error'' '''',
                     completed_at = str_field data ''completed_at'' '''',
                     gif_url = str_field data ''gif_url'' '''',
                     existing_deploy_urls = strs_field data ''existing_deploy_urls''\<rparr>))"

text \<open>\<open>asdict(project)\<close>.\<close>

definition asdict :: "Project \<Rightarrow> entry" where
  "asdict p =
     [''name'' \<mapsto> JStr (name p),
      ''github_url'' \<mapsto> JStr (github_url p),
      ''description'' \<mapsto> JStr (description p),
      ''language'' \<mapsto> JStr (language p),
      ''is_fork'' \<mapsto> JBool (is_fork p),
      ''status'' \<mapsto> JStr (status p),
      ''deploy_url'' \<mapsto> JStr (deploy_url p),
      ''render_service_id'' \<mapsto> JStr (render_service_id p),
      ''tech_stack'' \<mapsto> JArr (map JStr (tech_stack p)),
      ''category'' \<mapsto> JStr (category p),
      ''skip_reason'' \<mapsto> JStr (skip_reason p),
      ''error'' \<mapsto> JStr (error p),
      ''completed_at'' \<mapsto> JStr (completed_at p),
      ''gif_url'' \<mapsto> JStr (gif_url p),
      ''existing_deploy_urls'' \<mapsto> JArr (map JStr (existing_deploy_urls p))]"

text \<open>
  The first block of \<open>process_repo\<close>, the look at the ledger: the entry to return
  from, if there is one.  \<open>manifest["projects"]\<close> raises when the key is absent.
\<close>

definition sticky_statuses :: "ProjectStatus list" where
  "sticky_statuses = [DEPLOYED, ALREADY_LIVE]"

definition cached_entry :: "config \<Rightarrow> manifest \<Rightarrow> string \<Rightarrow> py_error + entry option" where
  "cached_entry cfg m nm =
     (if SKIP_EXISTING cfg
      then (case projects m of
              None \<Rightarrow> Inl (KeyError ''projects'')
            | Some ps \<Rightarrow>
                (case ps nm of
                   None \<Rightarrow> Inr None
                 | Some existing \<Rightarrow>
                     if existing ''status'' \<in> set (map (Some \<circ> JStr \<circ> status_value) sticky_statuses)
                     then Inr (Some existing) else Inr None))
      else Inr None)"

text \<open>\<open>classification["tech_stack"] or ([project.language] if project.language else [])\<close>.\<close>

definition tech_stack_or_language :: "classification \<Rightarrow> string \<Rightarrow> string list" where
  "tech_stack_or_language c lang =
     (if c_tech_stack c \<noteq> [] then c_tech_stack c else if lang \<noteq> [] then [lang] else [])"

definition or_else :: "string \<Rightarrow> string \<Rightarrow> string" where
  "or_else a b = (if a \<noteq> [] then a else b)"

text \<open>\<open>complete_project_tiered\<close>.\<close>

definition complete_project_tiered ::
    "world \<Rightarrow> int \<Rightarrow> string \<Rightarrow> event list \<Rightarrow> event list \<times> bool" where
  "complete_project_tiered w tier project_name t =
     (if tier \<le> 0 then (t, True)
      else (let call = (if tier = 1 then Claude (Tier1Prompt project_name) 15
                        else Claude (Tier2Prompt project_name) 30)
            in (t @ [call], agent w (agent_runs t))))"

text \<open>
  \<open>process_repo\<close> after the look at the ledger: the skip checks, phase 0 (liveness),
  phase 1 (classification), the dry-run exit, phase 2 (clone), phase 3 (completion),
  the push and phase 4 (deployment).  The prompts of the agent are recorded by their
  template and the project name they interpolate; a failure of the file system during
  the quick fix is not modelled.
\<close>

definition process_new ::
    "world \<Rightarrow> config \<Rightarrow> repo \<Rightarrow> event list \<Rightarrow> event list \<times> (py_error + Project)" where
  "process_new w cfg r t =
     (let nm = repo_name r;
          project = \<lparr>name = nm, github_url = repo_html_url r,
                     description = get_or (repo_description r) '''',
                     language = get_or (repo_language r) '''',
                     is_fork = repo_fork r, status = status_value PENDING,
                     deploy_url = '''', render_service_id = '''', tech_stack = [],
                     category = '''', skip_reason = '''', error = '''', completed_at = '''',
                     gif_url = '''', existing_deploy_urls = []\<rparr>
      in case should_skip_repo r of
           (True, reason) \<Rightarrow>
             (t, Inr (project\<lparr>status := status_value SKIPPED, skip_reason := reason\<rparr>))
         | (False, reason) \<Rightarrow>
      (case find_existing_deployment w cfg r t of (t0, is_live, live_url) \<Rightarrow>
       if is_live
       then (case classify_repo_from_api w cfg r t0 of (t1, c) \<Rightarrow>
               (t1, Inr (project\<lparr>status := status_value ALREADY_LIVE,
                                 deploy_url := live_url,
                                 completed_at := utcnow w (length t0),
                                 tech_stack := tech_stack_or_language c (language project),
                                 category := or_else (c_category c) ''web-app'',
                                 description :=
                                   or_else (description project)
                                     (or_else (get_or (repo_description r) '''') nm)\<rparr>)))
       else
      (case classify_repo_from_api w cfg r t0 of (t1, c) \<Rightarrow>
       (let tier = c_tier c;
            project = project\<lparr>tech_stack := tech_stack_or_language c (language project),
                              category := or_else (c_category c) ''other'',
                              description :=
                                or_else (description project)
                                  (or_else (get_or (repo_description r) '''') nm)\<rparr>
        in if c_file_count c \<le> 1
           then (t1, Inr (project\<lparr>status := status_value SKIPPED,
                                   skip_reason := ''Empty or README-only repo''\<rparr>))
           else if DRY_RUN cfg
           then (t1, Inr (project\<lparr>status := status_value COMPLETED,
                                   completed_at := utcnow w (length t1)\<rparr>))
           else
          (let t2 = t1 @ [Clone (repo_clone_url r)]
           in case clone w (repo_clone_url r) of
                Some e \<Rightarrow>
                  (t2, Inr (project\<lparr>status := status_value FAILED,
                                     error := ''Clone failed: '' @ e\<rparr>))
              | None \<Rightarrow>
          (case (if tier = 0 then (t2 @ [QuickFix nm], True)
                 else complete_project_tiered w tier nm t2) of (t3, success) \<Rightarrow>
           if \<not> success
           then (t3, Inr (project\<lparr>status := status_value FAILED,
                                   error := ''Completion failed''\<rparr>))
           else
          (let t4 = t3 @ [Push nm];
               project = project\<lparr>status := status_value COMPLETED\<rparr>
           in case deploy_with_retry w cfg project 2 t4 of
                (t5, Inl e) \<Rightarrow> (t5, Inl e)
              | (t5, Inr url) \<Rightarrow>
                  (let project = (if url \<noteq> None \<and> url \<noteq> Some []
                                  then project\<lparr>deploy_url := the url,
                                               status := status_value DEPLOYED\<rparr>
                                  else project)
                   in (t5, Inr (project\<lparr>completed_at := utcnow w (length t5)\<rparr>))))))))))"

definition process_repo ::
    "world \<Rightarrow> config \<Rightarrow> repo \<Rightarrow> manifest \<Rightarrow> event list \<Rightarrow> event list \<times> (py_error + Project)" where
  "process_repo w cfg r m t =
     (case cached_entry cfg m (repo_name r) of
        Inl e \<Rightarrow> (t, Inl e)
      | Inr (Some existing) \<Rightarrow> (t, project_of_entry existing)
      | Inr None \<Rightarrow> process_new w cfg r t)"

section \<open>The run\<close>

text \<open>
  What \<open>main\<close> does to the manifest.  After each repository it stores the record:
  \<open>manifest["projects"][project.name] = asdict(project)\<close>.  After the capture phase
  it sets \<open>gif_url\<close> in the entries whose GIF file exists.
\<close>

definition store_project :: "manifest \<Rightarrow> Project \<Rightarrow> py_error + manifest" where
  "store_project m p =
     (case projects m of
        None \<Rightarrow> Inl (KeyError ''projects'')
      | Some ps \<Rightarrow> Inr (m\<lparr>projects := Some (ps(name p \<mapsto> asdict p))\<rparr>))"

definition capture_gifs :: "(string \<Rightarrow> bool) \<Rightarrow> manifest \<Rightarrow> py_error + manifest" where
  "capture_gifs gif_exists m =
     (case projects m of
        None \<Rightarrow> Inl (KeyError ''projects'')
      | Some ps \<Rightarrow>
          Inr (m\<lparr>projects :=
                   Some (\<lambda>n. map_option
                                (\<lambda>data. if gif_exists n
                                         then data(''gif_url'' \<mapsto> JStr (''gifs/'' @ n @ ''.gif''))
                                         else data)
                                (ps n))\<rparr>))"

text \<open>
  The manifests that runs of the program produce, from the one that \<open>load_manifest\<close>
  returns when there is no file: each step of \<open>main\<close> that changes the manifest, in
  any world and under any configuration, leads from one to the next.
\<close>

inductive reachable :: "manifest \<Rightarrow> bool" where
  initial: "reachable \<lparr>projects = Some Map.empty, portfolio_url = '''', last_run = ''''\<rparr>"
| reset: "reachable m \<Longrightarrow> reachable (reset_manifest_for_retry m)"
| saved: "reachable m \<Longrightarrow> reachable (m\<lparr>last_run := ts\<rparr>)"
| processed:
    "reachable m \<Longrightarrow> process_repo w cfg r m t = (t', Inr p) \<Longrightarrow> store_project m p = Inr m'
       \<Longrightarrow> reachable m'"
| captured: "reachable m \<Longrightarrow> capture_gifs gif_exists m = Inr m' \<Longrightarrow> reachable m'"
| portfolio: "reachable m \<Longrightarrow> reachable (m\<lparr>portfolio_url := url\<rparr>)"

section \<open>Predicates of the properties\<close>

text \<open>The invariant of a project record.\<close>

definition record_ok :: "Project \<Rightarrow> bool" where
  "record_ok p =
     ((status p = status_value DEPLOYED \<or> status p = status_value ALREADY_LIVE
         \<longrightarrow> deploy_url p \<noteq> [])
      \<and> (status p = status_value SKIPPED \<longrightarrow> skip_reason p \<noteq> [])
      \<and> (status p = status_value FAILED \<longrightarrow> error p \<noteq> []))"

text \<open>
  The same on the ledger: an entry with a sticky status holds a non-empty deploy URL.
\<close>

definition sticky_entry :: "entry \<Rightarrow> bool" where
  "sticky_entry data =
     (data ''status'' = Some (JStr (status_value DEPLOYED))
      \<or> data ''status'' = Some (JStr (status_value ALREADY_LIVE)))"

definition ledger_ok :: "manifest \<Rightarrow> bool" where
  "ledger_ok m =
     (\<forall>ps n data. projects m = Some ps \<longrightarrow> ps n = Some data \<longrightarrow> sticky_entry data
        \<longrightarrow> (\<exists>url. data ''deploy_url'' = Some (JStr url) \<and> url \<noteq> []))"

text \<open>The error texts of the fix prompts among some effects.\<close>

fun fix_errors :: "event list \<Rightarrow> string list" where
  "fix_errors [] = []"
| "fix_errors (Claude (FixPrompt err nm) n # es) = err # fix_errors es"
| "fix_errors (e # es) = fix_errors es"

text \<open>The effects of the phases before the clone: the liveness and file-tree requests.\<close>

fun is_probe :: "event \<Rightarrow> bool" where
  "is_probe (Get url) = True"
| "is_probe (TreeGet url) = True"
| "is_probe e = False"

text \<open>
  The file-tree fetch raises: the request for main raises, or main answers 404 and the
  request for master raises, or decoding the body of the 200 response raises.
\<close>

definition tree_fetch_raises :: "world \<Rightarrow> config \<Rightarrow> repo \<Rightarrow> bool" where
  "tree_fetch_raises w cfg r =
     (case tree_get w (tree_url cfg (repo_name r) ''main'') of
        TreeError e \<Rightarrow> True
      | TreeResponse status_code body \<Rightarrow>
          if status_code = 404
          then (case tree_get w (tree_url cfg (repo_name r) ''master'') of
                  TreeError e \<Rightarrow> True
                | TreeResponse status_code2 body2 \<Rightarrow> status_code2 = 200 \<and> body2 = None)
          else status_code = 200 \<and> body = None)"

text \<open>
  The effects of \<open>k\<close> rate-limited attempts of \<open>deploy_to_render\<close>: each is a POST
  followed by a sleep of 30 seconds times the number of the attempt, counted from one.
\<close>

definition backoff :: "payload \<Rightarrow> nat \<Rightarrow> event list" where
  "backoff pl k = concat (map (\<lambda>i. [Post pl, Sleep (30 * (int i + 1))]) [0 ..< k])"

section \<open>The specification's wording\<close>

text \<open>
  The tier rules as the specification lists them, in its order: each rule is a condition
  on the file listing and the tier it gives; the first rule whose condition holds
  decides, and the default applies when none does.
\<close>

fun first_match :: "(bool \<times> int) list \<Rightarrow> int \<Rightarrow> int" where
  "first_match [] dflt = dflt"
| "first_match ((cond, v) # rules) dflt = (if cond then v else first_match rules dflt)"

definition spec_tier_rules :: "string \<Rightarrow> string list \<Rightarrow> (bool \<times> int) list" where
  "spec_tier_rules deploy_type files =
     (let index_html = list_ex (\<lambda>f. endswith f ''index.html'') files;
          any_html = list_ex (\<lambda>f. endswith f ''.html'') files;
          package_manifest = (''package.json'' \<in> set files);
          descriptor = (''render.yaml'' \<in> set files);
          readme = (''readme.md'' \<in> set files \<or> ''README.md'' \<in> set files);
          dockerfile = (''dockerfile'' \<in> set files \<or> ''Dockerfile'' \<in> set files);
          csharp = list_ex (\<lambda>f. endswith f ''.cs'' \<or> endswith f ''.csproj'') files;
          react = (list_ex (\<lambda>f. contains ''react'' f) files
                   \<or> list_ex (\<lambda>f. endswith f ''.jsx'' \<or> endswith f ''.tsx'') files);
          server = list_ex (\<lambda>n. n \<in> set files)
                     [''server.js'', ''app.js'', ''index.js'', ''server.py'', ''app.py'', ''main.py'']
      in [(length files \<le> 2, 2),
          (deploy_type = ''static'' \<and> index_html \<and> \<not> package_manifest, 0),
          (deploy_type = ''static'' \<and> any_html \<and> \<not> package_manifest, 0),
          (descriptor \<and> readme \<and> package_manifest, 1),
          (csharp \<or> dockerfile, 2),
          (package_manifest \<and> \<not> server \<and> \<not> react, 2)])"

text \<open>
  Liveness as the specification words it: status below 400, the case-folded first 2000
  characters of the body with at least 100 characters that are not whitespace, and no
  error signal in them.
\<close>

definition non_whitespace_length :: "string \<Rightarrow> nat" where
  "non_whitespace_length s = length (filter (\<lambda>c. \<not> is_space c) s)"

definition spec_live :: "http_result \<Rightarrow> bool" where
  "spec_live r =
     (case r of
        NetError e \<Rightarrow> False
      | Response status_code text \<Rightarrow>
          status_code < 400
          \<and> non_whitespace_length (lower (take 2000 text)) \<ge> 100
          \<and> \<not> list_ex (\<lambda>sig. contains sig (lower (take 2000 text))) error_signals)"

section \<open>Example inputs\<close>

text \<open>A world in which every request fails, cloning works and the agent fails.\<close>

definition quiet_world :: world where
  "quiet_world =
     \<lparr>http_get = (\<lambda>url. NetError ''unreachable''),
      tree_get = (\<lambda>url. TreeError ''unreachable''),
      clone = (\<lambda>url. None),
      agent = (\<lambda>k. False),
      render_yaml = (\<lambda>k. NoFile),
      render_post = (\<lambda>k. NetError ''unreachable''),
      utcnow = (\<lambda>k. ''2024-01-01T00:00:00'')\<rparr>"

definition example_config :: config where
  "example_config =
     \<lparr>GITHUB_USERNAME = ''Mathew-Harvey'', GITHUB_TOKEN = '''', RENDER_API_KEY = ''key'',
      RENDER_OWNER_ID = ''owner'', SKIP_EXISTING = True, DRY_RUN = False\<rparr>"

definition example_repo :: repo where
  "example_repo =
     \<lparr>repo_name = ''demo'', repo_html_url = ''https://github.com/Mathew-Harvey/demo'',
      repo_clone_url = ''https://github.com/Mathew-Harvey/demo.git'',
      repo_description = None, repo_language = Some ''Python'', repo_homepage = None,
      repo_fork = False, repo_archived = False, repo_size = 12\<rparr>"

text \<open>The file tree of a small Python project, on branch main.\<close>

definition python_tree :: "string \<Rightarrow> tree_result" where
  "python_tree url =
     TreeResponse 200 (Some [(''main.py'', ''blob''), (''util.py'', ''blob''),
                             (''docs'', ''tree''), (''docs/notes.txt'', ''blob'')])"

definition python_world :: world where
  "python_world = quiet_world\<lparr>tree_get := python_tree\<rparr>"

text \<open>
  A page of 100 characters, all whitespace but the first and the last, and a page of 100
  letters.
\<close>

definition sparse_page :: string where
  "sparse_page = CHR ''x'' # replicate 98 (CHR '' '') @ [CHR ''y'']"

definition dense_page :: string where
  "dense_page = replicate 100 (CHR ''x'')"

definition sparse_world :: world where
  "sparse_world = quiet_world\<lparr>http_get := (\<lambda>url. Response 200 sparse_page)\<rparr>"

definition dense_world :: world where
  "dense_world = quiet_world\<lparr>http_get := (\<lambda>url. Response 200 dense_page)\<rparr>"

text \<open>The record of the example repository after a successful completion and push.\<close>

definition example_project :: Project where
  "example_project =
     \<lparr>name = ''demo'', github_url = ''https://github.com/Mathew-Harvey/demo'',
      description = ''demo'', language = ''Python'', is_fork = False,
      status = ''completed'', deploy_url = '''', render_service_id = '''',
      tech_stack = [''Python''], category = ''cli-tool'', skip_reason = '''', error = '''',
      completed_at = '''', gif_url = '''', existing_deploy_urls = []\<rparr>"

text \<open>Providers that answer every POST with 204, with 429, and with 400.\<close>

definition world_204 :: world where
  "world_204 = quiet_world\<lparr>render_post := (\<lambda>k. Response 204 '''')\<rparr>"

definition world_429 :: world where
  "world_429 = quiet_world\<lparr>render_post := (\<lambda>k. Response 429 ''Too Many Requests'')\<rparr>"

definition world_400 :: world where
  "world_400 = quiet_world\<lparr>render_post := (\<lambda>k. Response 400 ''must include serviceDetails'')\<rparr>"

text \<open>
  The repository named \<open>.github\<close>, which is on the skip list, and a ledger that
  records it as deployed; a ledger that records the example repository as deployed
  without a deploy URL.
\<close>

definition dotgithub_repo :: repo where
  "dotgithub_repo =
     \<lparr>repo_name = ''.github'', repo_html_url = ''https://github.com/Mathew-Harvey/.github'',
      repo_clone_url = ''https://github.com/Mathew-Harvey/.github.git'',
      repo_description = None, repo_language = None, repo_homepage = None,
      repo_fork = False, repo_archived = False, repo_size = 3\<rparr>"

definition dotgithub_entry :: entry where
  "dotgithub_entry =
     [''name'' \<mapsto> JStr ''.github'',
      ''github_url'' \<mapsto> JStr ''https://github.com/Mathew-Harvey/.github'',
      ''status'' \<mapsto> JStr ''deployed'',
      ''deploy_url'' \<mapsto> JStr ''https://mh-.github.onrender.com'']"

definition dotgithub_manifest :: manifest where
  "dotgithub_manifest =
     \<lparr>projects = Some [''.github'' \<mapsto> dotgithub_entry], portfolio_url = '''', last_run = ''''\<rparr>"

definition empty_manifest :: manifest where
  "empty_manifest = \<lparr>projects = Some Map.empty, portfolio_url = '''', last_run = ''''\<rparr>"

definition fork_repo :: repo where
  "fork_repo = example_repo\<lparr>repo_fork := True\<rparr>"

text \<open>
  A world in which the example repository is not live, has the Python file tree, is
  completed by the agent and is accepted by the provider.
\<close>

definition deploying_world :: world where
  "deploying_world =
     quiet_world\<lparr>tree_get := python_tree, agent := (\<lambda>k. True),
                 render_post := (\<lambda>k. Response 201 ''created'')\<rparr>"

section \<open>Properties of the reset pass\<close>

lemma reset_entry_resets:
  assumes "entry_status data \<in> JStr ` status_value ` {FAILED, PENDING, SKIPPED, ANALYSING, COMPLETED}"
  shows "reset_entry data ''status'' = Some (JStr ''pending'')"
    and "reset_entry data ''error'' = Some (JStr '''')"
    and "reset_entry data ''skip_reason'' = Some (JStr '''')"
    and "k \<notin> {''status'', ''error'', ''skip_reason''} \<Longrightarrow> reset_entry data k = data k"
  using assms by (auto simp: reset_entry_def reset_statuses_def)

lemma reset_entry_sticky:
  assumes "entry_status data \<in> JStr ` status_value ` {DEPLOYED, ALREADY_LIVE}"
  shows "reset_entry data = data"
  using assms by (auto simp: reset_entry_def reset_statuses_def)

text \<open>
  C1.  The reset pass keeps the set of ledger keys and the other manifest fields.  An
  entry whose status is failed, pending, skipped, analysing or completed comes out with
  status pending and with error and skip_reason empty, its other fields as they were.
  An entry whose status is deployed or already-live comes out identical.
\<close>

theorem reset_manifest_for_retry_spec:
  assumes "projects m = Some ps"
  shows "\<exists>ps'. projects (reset_manifest_for_retry m) = Some ps'
           \<and> portfolio_url (reset_manifest_for_retry m) = portfolio_url m
           \<and> last_run (reset_manifest_for_retry m) = last_run m
           \<and> dom ps' = dom ps
           \<and> (\<forall>n data. ps n = Some data \<longrightarrow>
                (\<exists>data'. ps' n = Some data'
                  \<and> (entry_status data \<in> JStr ` status_value ` {FAILED, PENDING, SKIPPED, ANALYSING, COMPLETED}
                       \<longrightarrow> data' ''status'' = Some (JStr (status_value PENDING))
                         \<and> data' ''error'' = Some (JStr '''')
                         \<and> data' ''skip_reason'' = Some (JStr '''')
                         \<and> (\<forall>k. k \<notin> {''status'', ''error'', ''skip_reason''} \<longrightarrow> data' k = data k))
                  \<and> (entry_status data \<in> JStr ` status_value ` {DEPLOYED, ALREADY_LIVE}
                       \<longrightarrow> data' = data)))"
proof -
  let ?ps' = "\<lambda>n. map_option reset_entry (ps n)"
  have p: "projects (reset_manifest_for_retry m) = Some ?ps'"
    using assms by (simp add: reset_manifest_for_retry_def)
  have f: "portfolio_url (reset_manifest_for_retry m) = portfolio_url m"
          "last_run (reset_manifest_for_retry m) = last_run m"
    using assms by (simp_all add: reset_manifest_for_retry_def)
  have d: "dom ?ps' = dom ps"
    by (auto simp: dom_def)
  have e: "\<exists>data'. ?ps' n = Some data'
       \<and> (entry_status data \<in> JStr ` status_value ` {FAILED, PENDING, SKIPPED, ANALYSING, COMPLETED}
            \<longrightarrow> data' ''status'' = Some (JStr (status_value PENDING))
              \<and> data' ''error'' = Some (JStr '''')
              \<and> data' ''skip_reason'' = Some (JStr '''')
              \<and> (\<forall>k. k \<notin> {''status'', ''error'', ''skip_reason''} \<longrightarrow> data' k = data k))
       \<and> (entry_status data \<in> JStr ` status_value ` {DEPLOYED, ALREADY_LIVE} \<longrightarrow> data' = data)"
    if "ps n = Some data" for n data
    using that reset_entry_resets [of data] reset_entry_sticky [of data] by simp
  from p f d e show ?thesis by blast
qed

theorem reset_manifest_for_retry_witness:
  "\<exists>ps'. projects (reset_manifest_for_retry
            \<lparr>projects = Some [''a'' \<mapsto> [''status'' \<mapsto> JStr ''failed'', ''error'' \<mapsto> JStr ''boom''],
                              ''b'' \<mapsto> [''status'' \<mapsto> JStr ''deployed'', ''deploy_url'' \<mapsto> JStr ''https://b'']],
             portfolio_url = '''', last_run = ''''\<rparr>) = Some ps'
     \<and> (\<exists>d. ps' ''a'' = Some d \<and> d ''status'' = Some (JStr ''pending'') \<and> d ''error'' = Some (JStr ''''))
     \<and> ps' ''b'' = Some [''status'' \<mapsto> JStr ''deployed'', ''deploy_url'' \<mapsto> JStr ''https://b'']"
proof -
  define ea :: entry where "ea = [''status'' \<mapsto> JStr ''failed'', ''error'' \<mapsto> JStr ''boom'']"
  define eb :: entry where "eb = [''status'' \<mapsto> JStr ''deployed'', ''deploy_url'' \<mapsto> JStr ''https://b'']"
  define ps :: "string \<rightharpoonup> entry" where "ps = [''a'' \<mapsto> ea, ''b'' \<mapsto> eb]"
  define m where "m = \<lparr>projects = Some ps, portfolio_url = '''', last_run = ''''\<rparr>"
  have h: "projects m = Some ps" by (simp add: m_def)
  have a: "ps ''a'' = Some ea" by (simp add: ps_def)
  have b: "ps ''b'' = Some eb" by (simp add: ps_def)
  have sa: "entry_status ea \<in> JStr ` status_value ` {FAILED, PENDING, SKIPPED, ANALYSING, COMPLETED}"
    by (simp add: entry_status_def ea_def)
  have sb: "entry_status eb \<in> JStr ` status_value ` {DEPLOYED, ALREADY_LIVE}"
    by (simp add: entry_status_def eb_def)
  from reset_manifest_for_retry_spec [OF h] obtain ps' where
    1: "projects (reset_manifest_for_retry m) = Some ps'" and
    2: "\<forall>n data. ps n = Some data \<longrightarrow>
                (\<exists>data'. ps' n = Some data'
                  \<and> (entry_status data \<in> JStr ` status_value ` {FAILED, PENDING, SKIPPED, ANALYSING, COMPLETED}
                       \<longrightarrow> data' ''status'' = Some (JStr (status_value PENDING))
                         \<and> data' ''error'' = Some (JStr '''')
                         \<and> data' ''skip_reason'' = Some (JStr '''')
                         \<and> (\<forall>k. k \<notin> {''status'', ''error'', ''skip_reason''} \<longrightarrow> data' k = data k))
                  \<and> (entry_status data \<in> JStr ` status_value ` {DEPLOYED, ALREADY_LIVE}
                       \<longrightarrow> data' = data))"
    by (elim exE conjE) (rule that, assumption+)
  from 2 [rule_format, OF a] sa obtain d where "ps' ''a'' = Some d"
      "d ''status'' = Some (JStr (status_value PENDING))" "d ''error'' = Some (JStr '''')"
    by blast
  moreover from 2 [rule_format, OF b] sb have "ps' ''b'' = Some eb" by blast
  ultimately have "\<exists>ps'. projects (reset_manifest_for_retry m) = Some ps'
     \<and> (\<exists>d. ps' ''a'' = Some d \<and> d ''status'' = Some (JStr ''pending'') \<and> d ''error'' = Some (JStr ''''))
     \<and> ps' ''b'' = Some eb"
    using 1 by auto
  then show ?thesis unfolding m_def ps_def ea_def eb_def .
qed

section \<open>Properties of the classifier\<close>

lemma classify_files_tier:
  "c_tier (classify_files lang files) =
     first_match (spec_tier_rules (c_deploy_type (classify_files lang files)) files) 1"
  by (simp only: classify_files_def spec_tier_rules_def Let_def first_match.simps
        classification.select_convs)

lemma classify_files_count: "c_file_count (classify_files lang files) = length files"
  by (simp only: classify_files_def Let_def classification.select_convs)

lemma classify_files_near_empty:
  "length files \<le> 2 \<Longrightarrow> c_tier (classify_files lang files) = 2"
  by (simp only: classify_files_tier spec_tier_rules_def Let_def first_match.simps if_True)

lemma classify_repo_from_api_files:
  "snd (classify_repo_from_api w cfg r t) =
     classify_files (lower (case repo_language r of None \<Rightarrow> [] | Some l \<Rightarrow> l))
       (snd (fetch_files w cfg r t))"
  by (simp add: classify_repo_from_api_def split: prod.splits)

text \<open>
  C2.  The tier that the classifier returns is the tier of the first rule, in the order
  of the specification, whose condition holds, and 1 when none holds.  The file count
  it returns is the number of files, and a listing of at most two files gets tier 2
  whatever it holds, also through the function that fetches the listing.
\<close>

theorem classify_tier_precedence:
  "c_tier (classify_files lang files)
     = first_match (spec_tier_rules (c_deploy_type (classify_files lang files)) files) 1
   \<and> c_file_count (classify_files lang files) = length files
   \<and> (length files \<le> 2 \<longrightarrow> c_tier (classify_files lang files) = 2)
   \<and> (c_file_count (snd (classify_repo_from_api w cfg r t)) \<le> 2
        \<longrightarrow> c_tier (snd (classify_repo_from_api w cfg r t)) = 2)"
proof -
  have "c_tier (snd (classify_repo_from_api w cfg r t)) = 2"
    if "c_file_count (snd (classify_repo_from_api w cfg r t)) \<le> 2"
    using that unfolding classify_repo_from_api_files classify_files_count
    by (rule classify_files_near_empty)
  then show ?thesis
    using classify_files_tier [of lang files] classify_files_count [of lang files]
      classify_files_near_empty [of files lang]
    by blast
qed

theorem classify_tier_precedence_witness:
  "length [''index.html'', ''package.json''] \<le> 2
   \<and> c_tier (classify_files ''html'' [''index.html'', ''package.json'']) = 2
   \<and> c_file_count (snd (classify_repo_from_api quiet_world example_config example_repo [])) \<le> 2
   \<and> c_tier (snd (classify_repo_from_api quiet_world example_config example_repo [])) = 2"
proof -
  define files where "files = [''index.html'', ''package.json'']"
  define c where "c = snd (classify_repo_from_api quiet_world example_config example_repo [])"
  have 1: "length files \<le> 2" by (simp add: files_def)
  have "snd (fetch_files quiet_world example_config example_repo []) = []"
    by (simp add: fetch_files_def quiet_world_def Let_def)
  then have 2: "c_file_count c \<le> 2"
    unfolding c_def classify_repo_from_api_files classify_files_count by simp
  from classify_tier_precedence [of "''html''" files quiet_world example_config example_repo "[]"] 1 2
  have "length files \<le> 2 \<and> c_tier (classify_files ''html'' files) = 2
        \<and> c_file_count c \<le> 2 \<and> c_tier c = 2"
    unfolding c_def by blast
  then show ?thesis unfolding files_def c_def .
qed

lemma classify_files_tech_stack:
  "c_tech_stack (classify_files lang files) = build_tech_stack lang files"
  by (simp only: classify_files_def Let_def classification.select_convs)

lemma python_files:
  "snd (fetch_files python_world example_config example_repo []) =
     [''main.py'', ''util.py'', ''docs/notes.txt'']"
  by (simp add: fetch_files_def python_world_def quiet_world_def python_tree_def Let_def
        files_of_response_def dedupe_def lower_def lower_char_def)

lemma python_stack:
  "build_tech_stack ''python'' [''main.py'', ''util.py'', ''docs/notes.txt''] = [''Python'', ''Python'']"
  by code_simp

lemma build_tech_stack_unfold:
  "build_tech_stack lang files =
     (if lang \<noteq> [] \<and> capitalize lang \<notin> set (map lower (build_tech_stack [] files))
      then capitalize lang # build_tech_stack [] files else build_tech_stack [] files)"
  by (simp add: build_tech_stack_def Let_def split del: if_split cong: if_cong)

lemma evidence_tags:
  "set (build_tech_stack [] files) \<subseteq> {''HTML'', ''CSS'', ''JavaScript'', ''React'', ''Python'', ''C#''}"
  by (auto simp: build_tech_stack_def Let_def)

lemma of_char_upper_char:
  "\<not> (97 \<le> (of_char (upper_char c) :: nat) \<and> (of_char (upper_char c) :: nat) \<le> 122)"
proof -
  have "(of_char c :: nat) < 256" by simp
  then show ?thesis
    by (auto simp: upper_char_def Let_def)
qed

lemma capitalize_not_lower_tag:
  assumes "lang \<noteq> []"
  shows "capitalize lang \<notin> lower ` {''HTML'', ''CSS'', ''JavaScript'', ''React'', ''Python'', ''C#''}"
proof -
  obtain c cs where l: "lang = c # cs" using assms by (cases lang) auto
  have t: "lower ` {''HTML'', ''CSS'', ''JavaScript'', ''React'', ''Python'', ''C#''}
        = {''html'', ''css'', ''javascript'', ''react'', ''python'', ''c#''}"
    by code_simp
  have "upper_char c \<notin> {CHR ''h'', CHR ''c'', CHR ''j'', CHR ''r'', CHR ''p''}"
    using of_char_upper_char [of c] by auto
  then show ?thesis unfolding t by (auto simp: l capitalize_def)
qed

lemma declared_language_always_added:
  assumes "lang \<noteq> []"
  shows "build_tech_stack lang files = capitalize lang # build_tech_stack [] files"
proof -
  have "capitalize lang \<notin> set (map lower (build_tech_stack [] files))"
    using capitalize_not_lower_tag [OF assms] evidence_tags [of files] by auto
  with assms show ?thesis by (subst build_tech_stack_unfold) simp
qed

text \<open>
  C9.  The declared language is compared, capitalised, with the lower-cased evidence
  tags, so the comparison never finds it: a declared language is always put in front.
  For the repository with declared language Python and the files main.py, util.py and
  docs/notes.txt the tech stack is Python twice.
\<close>

theorem tech_stack_repeats_language:
  "repo_language example_repo = Some ''Python''
   \<and> snd (fetch_files python_world example_config example_repo []) =
       [''main.py'', ''util.py'', ''docs/notes.txt'']
   \<and> c_tech_stack (snd (classify_repo_from_api python_world example_config example_repo []))
       = [''Python'', ''Python'']"
proof -
  have l: "repo_language example_repo = Some ''Python''"
    by (simp add: example_repo_def)
  have "lower ''Python'' = ''python''"
    by code_simp
  with l show ?thesis
    by (simp only: classify_repo_from_api_files classify_files_tech_stack python_files
          python_stack option.case simp_thms)
qed

section \<open>Properties of the liveness probe\<close>

lemma sparse_page_live: "live_response (Response 200 sparse_page)"
  by code_simp

lemma sparse_page_not_spec_live: "\<not> spec_live (Response 200 sparse_page)"
  by code_simp

lemma dense_page_live: "live_response (Response 200 dense_page)"
  by code_simp

text \<open>
  C3, as stated, fails: a page of 100 characters of which 98 are inner whitespace is
  live for \<open>check_url_live\<close>, with 2 characters that are not whitespace.
\<close>

theorem check_url_live_counterexample:
  "snd (check_url_live sparse_world ''https://demo.onrender.com'' [])
   \<and> \<not> spec_live (http_get sparse_world ''https://demo.onrender.com'')
   \<and> non_whitespace_length (lower (take 2000 sparse_page)) = 2"
proof -
  have "non_whitespace_length (lower (take 2000 sparse_page)) = 2"
    by code_simp
  then show ?thesis
    using sparse_page_live sparse_page_not_spec_live
    by (simp add: check_url_live_def sparse_world_def quiet_world_def)
qed

text \<open>
  C3, amended.  \<open>check_url_live\<close> issues one GET, and returns true exactly when the
  request gives a response with status below 400 whose first 2000 characters, in lower
  case and with leading and trailing whitespace removed, are at least 100 characters
  long, and, in lower case, hold none of the error signals.
\<close>

theorem check_url_live_iff:
  "check_url_live w url t =
     (t @ [Get url],
      case http_get w url of
        NetError e \<Rightarrow> False
      | Response status_code text \<Rightarrow>
          status_code < 400
          \<and> 100 \<le> length (strip (lower (take 2000 text)))
          \<and> \<not> list_ex (\<lambda>sig. contains sig (lower (take 2000 text))) error_signals)"
  by (auto simp: check_url_live_def live_response_def Let_def split: http_result.splits)

theorem check_url_live_iff_witness:
  "check_url_live dense_world ''https://demo.onrender.com'' []
     = ([Get ''https://demo.onrender.com''], True)"
proof -
  have g: "http_get dense_world ''https://demo.onrender.com'' = Response 200 dense_page"
    by (simp add: dense_world_def quiet_world_def)
  have "(200 :: int) < 400
          \<and> 100 \<le> length (strip (lower (take 2000 dense_page)))
          \<and> \<not> list_ex (\<lambda>sig. contains sig (lower (take 2000 dense_page))) error_signals"
    by code_simp
  then show ?thesis
    using check_url_live_iff [of dense_world "''https://demo.onrender.com''" "[]"]
    by (simp only: g http_result.case append_Nil simp_thms)
qed

section \<open>Properties of the probe loop\<close>

lemma dedupe_acc_set: "set (dedupe_acc seen xs) = set xs - set seen"
  by (induction xs arbitrary: seen) auto

lemma dedupe_acc_distinct: "distinct (dedupe_acc seen xs)"
  by (induction xs arbitrary: seen) (auto simp: dedupe_acc_set)

lemma distinct_dedupe: "distinct (dedupe xs)"
  by (simp add: dedupe_def dedupe_acc_distinct)

lemma set_dedupe: "set (dedupe xs) = set xs"
  by (simp add: dedupe_def dedupe_acc_set)

lemma dedupe_example: "dedupe [a, b, a, c] = dedupe [a, b, c]"
  by (simp add: dedupe_def)

lemma probe_candidates_eq:
  "probe_candidates w cs t =
     (case dropWhile (\<lambda>u. \<not> live_response (http_get w u)) cs of
        [] \<Rightarrow> (t @ map Get cs, False, '''')
      | u # rest \<Rightarrow>
          (t @ map Get (takeWhile (\<lambda>u. \<not> live_response (http_get w u)) cs @ [u]), True, u))"
proof (induction cs arbitrary: t)
  case Nil
  show ?case by simp
next
  case (Cons c cs)
  show ?case
  proof (cases "live_response (http_get w c)")
    case True
    then show ?thesis by (simp add: check_url_live_def)
  next
    case False
    then show ?thesis
      by (cases "dropWhile (\<lambda>u. \<not> live_response (http_get w u)) cs")
         (simp_all add: check_url_live_def Cons.IH del: dropWhile_eq_Nil_conv)
  qed
qed

text \<open>
  C8.  \<open>find_existing_deployment\<close> probes the candidates, which hold no URL twice, from
  the first on: it queries the candidates before the first live one and that one, and
  returns it; it queries them all and returns \<open>(False, "")\<close> when none is live.  With
  candidates X and Y and X live, only X is queried.
\<close>

theorem find_existing_deployment_short_circuits:
  "find_existing_deployment w cfg r t = probe_candidates w (get_candidate_urls cfg r) t
   \<and> distinct (get_candidate_urls cfg r)
   \<and> probe_candidates w cs t =
       (case dropWhile (\<lambda>u. \<not> live_response (http_get w u)) cs of
          [] \<Rightarrow> (t @ map Get cs, False, '''')
        | u # rest \<Rightarrow>
            (t @ map Get (takeWhile (\<lambda>u. \<not> live_response (http_get w u)) cs @ [u]), True, u))
   \<and> (live_response (http_get w X) \<longrightarrow> probe_candidates w [X, Y] t = (t @ [Get X], True, X))"
proof -
  have "distinct (get_candidate_urls cfg r)"
    by (simp only: get_candidate_urls_def Let_def distinct_dedupe)
  moreover have "probe_candidates w [X, Y] t = (t @ [Get X], True, X)"
    if "live_response (http_get w X)"
    using that by (simp add: check_url_live_def)
  ultimately show ?thesis
    unfolding find_existing_deployment_def
    using probe_candidates_eq [of w cs t] by blast
qed

theorem find_existing_deployment_witness:
  "live_response (http_get dense_world ''https://x.example'')
   \<and> probe_candidates dense_world [''https://x.example'', ''https://y.example''] []
       = ([Get ''https://x.example''], True, ''https://x.example'')"
proof -
  have l: "live_response (http_get dense_world ''https://x.example'')"
    using dense_page_live by (simp add: dense_world_def quiet_world_def)
  with find_existing_deployment_short_circuits
         [of dense_world example_config example_repo "[]" "[]" "''https://x.example''"
            "''https://y.example''"]
  show ?thesis by (simp only: simp_thms append_Nil)
qed

section \<open>Properties of the deployment client\<close>

lemma posts_snoc_Post: "posts (t @ [Post pl]) = Suc (posts t)"
  by (simp add: posts_def)

lemma posts_snoc_Sleep: "posts (t @ [Sleep n]) = posts t"
  by (simp add: posts_def)

lemma backoff_Suc: "backoff pl (Suc k) = backoff pl k @ [Post pl, Sleep (30 * (int k + 1))]"
  by (simp add: backoff_def)

lemma backoff_0: "backoff pl 0 = []"
  by (simp add: backoff_def)

lemma posts_backoff: "posts (t @ backoff pl k) = posts t + k"
  by (induction k) (simp_all add: backoff_Suc backoff_0 posts_def)

lemma build_render_payload_name:
  "build_render_payload cfg project d = Inr pl \<Longrightarrow> payload_name pl = ''mh-'' @ take 30 (name project)"
  by (auto simp: build_render_payload_def Let_def split: descriptor.splits if_splits)

text \<open>One attempt of the loop, by the answer to its POST.\<close>

lemma post_attempts_429:
  "render_post w (posts t) = Response 429 b \<Longrightarrow>
     post_attempts w pl (a # as) t = post_attempts w pl as (t @ [Post pl, Sleep (30 * (int a + 1))])"
  by (simp add: Let_def)

lemma post_attempts_ok:
  "render_post w (posts t) = Response code body \<Longrightarrow> code \<in> {200, 201} \<Longrightarrow>
     post_attempts w pl (a # as) t = (t @ [Post pl], Some (service_url (payload_name pl)), '''')"
  by (auto simp: Let_def)

lemma post_attempts_other:
  "render_post w (posts t) = Response code body \<Longrightarrow> code \<notin> {200, 201, 429} \<Longrightarrow>
     post_attempts w pl (a # as) t
       = (t @ [Post pl], None, ''Render API '' @ str_int code @ '': '' @ take 500 body)"
  by (auto simp: Let_def)

lemma post_attempts_exception:
  "render_post w (posts t) = NetError e \<Longrightarrow>
     post_attempts w pl (a # as) t = (t @ [Post pl], None, e)"
  by (simp add: Let_def)

lemma post_attempts_rate_limited:
  assumes "\<forall>i<k. \<exists>b. render_post w (posts t + i) = Response 429 b"
  shows "post_attempts w pl ([a ..< a + k] @ rest) t
           = post_attempts w pl rest
               (t @ concat (map (\<lambda>i. [Post pl, Sleep (30 * (int i + 1))]) [a ..< a + k]))"
  using assms
proof (induction k arbitrary: a t)
  case 0
  show ?case by simp
next
  case (Suc k)
  from Suc.prems obtain b where b: "render_post w (posts t) = Response 429 b"
    by force
  let ?t = "t @ [Post pl, Sleep (30 * (int a + 1))]"
  have p: "posts ?t = Suc (posts t)"
    by (simp add: posts_def)
  have "\<forall>i<k. \<exists>b. render_post w (posts ?t + i) = Response 429 b"
  proof (intro allI impI)
    fix i assume "i < k"
    then have "Suc i < Suc k" by simp
    with Suc.prems obtain b' where "render_post w (posts t + Suc i) = Response 429 b'"
      by blast
    then show "\<exists>b. render_post w (posts ?t + i) = Response 429 b"
      by (simp add: posts_def)
  qed
  from Suc.IH [OF this, of "Suc a"]
  have ih: "post_attempts w pl ([Suc a ..< Suc a + k] @ rest) ?t
          = post_attempts w pl rest
              (?t @ concat (map (\<lambda>i. [Post pl, Sleep (30 * (int i + 1))]) [Suc a ..< Suc a + k]))" .
  have l: "[a ..< a + Suc k] = a # [Suc a ..< Suc a + k]"
    by (simp add: upt_rec)
  show ?case
    unfolding l using b ih by (simp add: Let_def)
qed

lemma post_attempts_after_backoff:
  assumes "k \<le> 3" and "\<forall>i<k. \<exists>b. render_post w (posts t + i) = Response 429 b"
  shows "post_attempts w pl [0 ..< 3] t = post_attempts w pl [k ..< 3] (t @ backoff pl k)"
proof -
  have "[0 ..< 3] = [0 ..< 0 + k] @ [k ..< 3]"
    using assms(1) upt_add_eq_append [of 0 k "3 - k"] by simp
  then show ?thesis
    using post_attempts_rate_limited [OF assms(2), of pl 0 "[k ..< 3]"]
    by (simp add: backoff_def)
qed

text \<open>
  C7, as stated, fails: status 204 is a 2xx status, and \<open>deploy_to_render\<close> returns no
  URL for it, with the error of an unexpected status.
\<close>

theorem deploy_to_render_counterexample:
  "deploy_to_render world_204 example_config example_project []
     = ([Post (StaticSite ''mh-demo'' ''owner'' ''https://github.com/Mathew-Harvey/demo'' [] ''./'')],
        Inr (None, ''Render API 204: ''))"
proof -
  have "str_int 204 = ''204''" by code_simp
  then show ?thesis
    by (simp add: deploy_to_render_def world_204_def quiet_world_def example_config_def
          example_project_def build_render_payload_def Let_def upt_rec posts_def)
qed

text \<open>
  C7, amended.  With an API key, outside a dry run and with a descriptor that can be
  read, \<open>deploy_to_render\<close> posts a request whose service name is \<open>mh-\<close> followed by
  the first 30 characters of the project name.  After \<open>k < 3\<close> answers 429, each
  followed by a sleep of 30 seconds times the number of the attempt, the next answer
  decides: status 200 or 201 gives the URL of the service name and no error; any other
  status but 429 gives no URL and an error with the status and the first 500 characters
  of the body; an exception gives no URL and its message; no further request follows.
  After three answers 429 and three sleeps there is no URL and the error is that of the
  exhausted rate limit.
\<close>

theorem deploy_to_render_responses:
  assumes "RENDER_API_KEY cfg \<noteq> []" and "\<not> DRY_RUN cfg"
    and "build_render_payload cfg project (render_yaml w (length t)) = Inr pl"
    and "k < 3"
    and "\<forall>i<k. \<exists>b. render_post w (posts t + i) = Response 429 b"
  shows "payload_name pl = ''mh-'' @ take 30 (name project)
    \<and> (render_post w (posts t + k) = Response code body \<and> code \<in> {200, 201} \<longrightarrow>
          deploy_to_render w cfg project t
            = (t @ backoff pl k @ [Post pl],
               Inr (Some (''https://mh-'' @ take 30 (name project) @ ''.onrender.com''), [])))
    \<and> (render_post w (posts t + k) = Response code body \<and> code \<notin> {200, 201, 429} \<longrightarrow>
          deploy_to_render w cfg project t
            = (t @ backoff pl k @ [Post pl],
               Inr (None, ''Render API '' @ str_int code @ '': '' @ take 500 body)))
    \<and> (render_post w (posts t + k) = NetError e \<longrightarrow>
          deploy_to_render w cfg project t = (t @ backoff pl k @ [Post pl], Inr (None, e)))
    \<and> (k = 2 \<and> render_post w (posts t + 2) = Response 429 body \<longrightarrow>
          deploy_to_render w cfg project t
            = (t @ backoff pl 3, Inr (None, ''Rate limit exceeded after retries'')))"
proof -
  have n: "payload_name pl = ''mh-'' @ take 30 (name project)"
    using assms(3) by (rule build_render_payload_name)
  have d: "deploy_to_render w cfg project t
             = (case post_attempts w pl [0 ..< 3] t of (t', res) \<Rightarrow> (t', Inr res))"
    using assms(1-3) by (simp add: deploy_to_render_def)
  have s: "post_attempts w pl [0 ..< 3] t = post_attempts w pl [k ..< 3] (t @ backoff pl k)"
    using assms(4,5) by (intro post_attempts_after_backoff) simp_all
  have c: "[k ..< 3] = k # [Suc k ..< 3]"
    using assms(4) by (simp add: upt_rec)
  have p: "posts (t @ backoff pl k) = posts t + k"
    by (rule posts_backoff)
  have ok: "deploy_to_render w cfg project t
            = (t @ backoff pl k @ [Post pl],
               Inr (Some (''https://mh-'' @ take 30 (name project) @ ''.onrender.com''), []))"
    if "render_post w (posts t + k) = Response code body" "code \<in> {200, 201}"
    using post_attempts_ok [of w "t @ backoff pl k" code body pl k "[Suc k ..< 3]"] that
    by (simp add: d s c p n service_url_def)
  have other: "deploy_to_render w cfg project t
            = (t @ backoff pl k @ [Post pl],
               Inr (None, ''Render API '' @ str_int code @ '': '' @ take 500 body))"
    if "render_post w (posts t + k) = Response code body" "code \<notin> {200, 201, 429}"
    using post_attempts_other [of w "t @ backoff pl k" code body pl k "[Suc k ..< 3]"] that
    by (simp add: d s c p)
  have exc: "deploy_to_render w cfg project t = (t @ backoff pl k @ [Post pl], Inr (None, e))"
    if "render_post w (posts t + k) = NetError e"
    using post_attempts_exception [of w "t @ backoff pl k" e pl k "[Suc k ..< 3]"] that
    by (simp add: d s c p)
  have exhausted: "deploy_to_render w cfg project t
            = (t @ backoff pl 3, Inr (None, ''Rate limit exceeded after retries''))"
    if "k = 2" "render_post w (posts t + 2) = Response 429 body"
  proof -
    have "\<forall>i<3. \<exists>b. render_post w (posts t + i) = Response 429 b"
    proof (intro allI impI)
      fix i :: nat assume "i < 3"
      then have "i < k \<or> i = 2" using that(1) by auto
      then show "\<exists>b. render_post w (posts t + i) = Response 429 b"
        using assms(5) that(2) by auto
    qed
    then have "post_attempts w pl [0 ..< 3] t = post_attempts w pl [3 ..< 3] (t @ backoff pl 3)"
      by (intro post_attempts_after_backoff) simp_all
    then show ?thesis by (simp add: d)
  qed
  from n ok other exc exhausted show ?thesis by blast
qed

theorem deploy_to_render_responses_witness:
  "deploy_to_render world_429 example_config example_project []
     = ([Post (StaticSite ''mh-demo'' ''owner'' ''https://github.com/Mathew-Harvey/demo'' [] ''./''),
         Sleep 30,
         Post (StaticSite ''mh-demo'' ''owner'' ''https://github.com/Mathew-Harvey/demo'' [] ''./''),
         Sleep 60,
         Post (StaticSite ''mh-demo'' ''owner'' ''https://github.com/Mathew-Harvey/demo'' [] ''./''),
         Sleep 90],
        Inr (None, ''Rate limit exceeded after retries''))"
proof -
  define pl where
    "pl = StaticSite ''mh-demo'' ''owner'' ''https://github.com/Mathew-Harvey/demo'' [] ''./''"
  have 1: "RENDER_API_KEY example_config \<noteq> []" and 2: "\<not> DRY_RUN example_config"
    by (simp_all add: example_config_def)
  have 3: "build_render_payload example_config example_project (render_yaml world_429 (length []))
             = Inr pl"
    by (simp add: build_render_payload_def world_429_def quiet_world_def example_config_def
          example_project_def pl_def)
  have 4: "(2 :: nat) < 3" by simp
  have 5: "\<forall>i<2. \<exists>b. render_post world_429 (posts [] + i) = Response 429 b"
    by (simp add: world_429_def quiet_world_def)
  have 6: "render_post world_429 (posts [] + 2) = Response 429 ''Too Many Requests''"
    by (simp add: world_429_def quiet_world_def)
  have 7: "backoff pl 3 = [Post pl, Sleep 30, Post pl, Sleep 60, Post pl, Sleep 90]"
    by (simp add: backoff_def upt_rec)
  from deploy_to_render_responses [OF 1 2 3 4 5, of _ "''Too Many Requests''"] 6
  have "deploy_to_render world_429 example_config example_project []
          = ([] @ backoff pl 3, Inr (None, ''Rate limit exceeded after retries''))"
    by blast
  then have "deploy_to_render world_429 example_config example_project []
          = ([Post pl, Sleep 30, Post pl, Sleep 60, Post pl, Sleep 90],
             Inr (None, ''Rate limit exceeded after retries''))"
    by (simp only: 7 append_Nil)
  then show ?thesis
    unfolding pl_def .
qed

section \<open>Properties of the retry coordinator\<close>

lemma fix_errors_append: "fix_errors (xs @ ys) = fix_errors xs @ fix_errors ys"
  by (induction xs rule: fix_errors.induct) simp_all

lemma post_attempts_effects:
  "post_attempts w pl as t = (t1, res) \<Longrightarrow> \<exists>new. t1 = t @ new \<and> fix_errors new = []"
proof (induction as arbitrary: t)
  case Nil
  then show ?case by simp
next
  case (Cons a as)
  show ?case
  proof (cases "render_post w (posts t)")
    case (NetError e)
    with Cons.prems show ?thesis by (auto simp: Let_def)
  next
    case (Response code body)
    show ?thesis
    proof (cases "code = 429")
      case True
      with Response Cons.prems
      have "post_attempts w pl as (t @ [Post pl, Sleep (30 * (int a + 1))]) = (t1, res)"
        by (simp add: Let_def)
      from Cons.IH [OF this] obtain new
        where "t1 = (t @ [Post pl, Sleep (30 * (int a + 1))]) @ new" "fix_errors new = []"
        by blast
      then have "t1 = t @ ([Post pl, Sleep (30 * (int a + 1))] @ new)
                 \<and> fix_errors ([Post pl, Sleep (30 * (int a + 1))] @ new) = []"
        by simp
      then show ?thesis by blast
    next
      case False
      with Response Cons.prems show ?thesis
        by (auto simp: Let_def split: if_splits)
    qed
  qed
qed

lemma deploy_to_render_effects:
  assumes "deploy_to_render w cfg project t = (t1, res)"
  shows "\<exists>new. t1 = t @ new \<and> fix_errors new = []"
proof (cases "RENDER_API_KEY cfg = []")
  case True
  with assms show ?thesis by (simp add: deploy_to_render_def)
next
  case False
  show ?thesis
  proof (cases "build_render_payload cfg project (render_yaml w (length t))")
    case (Inl e)
    with False assms show ?thesis by (simp add: deploy_to_render_def)
  next
    case (Inr pl)
    show ?thesis
    proof (cases "DRY_RUN cfg")
      case True
      with False Inr assms show ?thesis by (simp add: deploy_to_render_def)
    next
      case dry: False
      obtain t' r where p: "post_attempts w pl [0 ..< 3] t = (t', r)"
        by (cases "post_attempts w pl [0 ..< 3] t") auto
      with False Inr dry assms have "t1 = t'"
        by (simp add: deploy_to_render_def)
      with post_attempts_effects [OF p] show ?thesis by simp
    qed
  qed
qed

lemma retry_attempts_effects:
  "retry_attempts w cfg project max_retries as t = (t', res) \<Longrightarrow>
     \<exists>new. t' = t @ new \<and> list_all (\<lambda>err. \<not> rate_limited err) (fix_errors new)"
proof (induction as arbitrary: t)
  case Nil
  then show ?case by simp
next
  case (Cons attempt rest)
  obtain t1 r where d: "deploy_to_render w cfg project t = (t1, r)"
    by (cases "deploy_to_render w cfg project t") auto
  from deploy_to_render_effects [OF d] obtain new1
    where n1: "t1 = t @ new1" "fix_errors new1 = []"
    by blast
  show ?case
  proof (cases r)
    case (Inl e)
    with Cons.prems d n1 show ?thesis by auto
  next
    case (Inr ue)
    obtain url err where ue: "ue = (url, err)" by (cases ue) auto
    let ?fix = "Claude (FixPrompt err (name project)) 15"
    show ?thesis
    proof (cases "(url \<noteq> None \<and> url \<noteq> Some []) \<or> err = [] \<or> attempt \<ge> max_retries
                  \<or> rate_limited err \<or> \<not> agent w (agent_runs t1)")
      case True
      then consider (stop) "(url \<noteq> None \<and> url \<noteq> Some []) \<or> err = [] \<or> attempt \<ge> max_retries
                        \<or> rate_limited err"
        | (failed) "\<not> ((url \<noteq> None \<and> url \<noteq> Some []) \<or> err = [] \<or> attempt \<ge> max_retries
                        \<or> rate_limited err)" "\<not> agent w (agent_runs t1)"
        by blast
      then show ?thesis
      proof cases
        case stop
        with Cons.prems d Inr ue have "t' = t1"
          by (auto simp: Let_def split: if_splits)
        with n1 show ?thesis by auto
      next
        case failed
        with Cons.prems d Inr ue have "t' = t1 @ [?fix]"
          by (auto simp: Let_def split: if_splits)
        with n1 failed(1) have "t' = t @ (new1 @ [?fix])
            \<and> list_all (\<lambda>err. \<not> rate_limited err) (fix_errors (new1 @ [?fix]))"
          by (simp add: fix_errors_append)
        then show ?thesis by blast
      qed
    next
      case False
      with Cons.prems d Inr ue
      have "retry_attempts w cfg project max_retries rest (t1 @ [?fix] @ [Push (name project)])
              = (t', res)"
        by (auto simp: Let_def split: if_splits)
      then have "retry_attempts w cfg project max_retries rest ((t1 @ [?fix]) @ [Push (name project)])
              = (t', res)"
        by simp
      from Cons.IH [OF this] obtain new
        where n: "t' = ((t1 @ [?fix]) @ [Push (name project)]) @ new"
          "list_all (\<lambda>err. \<not> rate_limited err) (fix_errors new)"
        by blast
      with n1 False
      have "t' = t @ (new1 @ [?fix, Push (name project)] @ new)
          \<and> list_all (\<lambda>err. \<not> rate_limited err)
               (fix_errors (new1 @ [?fix, Push (name project)] @ new))"
        by (simp add: fix_errors_append)
      then show ?thesis by blast
    qed
  qed
qed

lemma retry_attempts_stops:
  assumes "deploy_to_render w cfg project t = (t1, Inr (None, err))" and "rate_limited err"
  shows "retry_attempts w cfg project max_retries (attempt # rest) t = (t1, Inr None)"
  using assms by (simp add: Let_def)

text \<open>
  C5.  Every fix prompt that a call of \<open>deploy_with_retry\<close> hands to the agent holds an
  error text without rate-limit indicator.  An attempt that fails with an error text
  with a rate-limit indicator ends the loop, with no effect after those of the
  attempt.
\<close>

theorem deploy_with_retry_no_fix_on_rate_limit:
  "(deploy_with_retry w cfg project max_retries t = (t', res) \<longrightarrow>
      (\<exists>new. t' = t @ new \<and> list_all (\<lambda>err. \<not> rate_limited err) (fix_errors new)))
   \<and> (deploy_to_render w cfg project t = (t1, Inr (None, err)) \<and> rate_limited err \<longrightarrow>
        retry_attempts w cfg project max_retries (attempt # rest) t = (t1, Inr None))"
  using retry_attempts_effects [of w cfg project max_retries "[1 .. max_retries]" t t' res]
    retry_attempts_stops [of w cfg project t t1 err max_retries attempt rest]
  unfolding deploy_with_retry_def by blast

lemma attempts_of_two: "[1 .. 2 :: int] = [1, 2]"
  by code_simp

lemma rate_limit_exhausted_indicator: "rate_limited ''Rate limit exceeded after retries''"
  by code_simp

lemma deploy_to_render_world_429:
  "deploy_to_render world_429 example_config example_project []
     = ([Post (StaticSite ''mh-demo'' ''owner'' ''https://github.com/Mathew-Harvey/demo'' [] ''./''),
         Sleep 30,
         Post (StaticSite ''mh-demo'' ''owner'' ''https://github.com/Mathew-Harvey/demo'' [] ''./''),
         Sleep 60,
         Post (StaticSite ''mh-demo'' ''owner'' ''https://github.com/Mathew-Harvey/demo'' [] ''./''),
         Sleep 90],
        Inr (None, ''Rate limit exceeded after retries''))"
  by (simp add: deploy_to_render_def world_429_def quiet_world_def example_config_def
        example_project_def build_render_payload_def Let_def upt_rec posts_def)

theorem deploy_with_retry_witness:
  "rate_limited ''Rate limit exceeded after retries''
   \<and> deploy_with_retry world_429 example_config example_project 2 []
       = ([Post (StaticSite ''mh-demo'' ''owner'' ''https://github.com/Mathew-Harvey/demo'' [] ''./''),
           Sleep 30,
           Post (StaticSite ''mh-demo'' ''owner'' ''https://github.com/Mathew-Harvey/demo'' [] ''./''),
           Sleep 60,
           Post (StaticSite ''mh-demo'' ''owner'' ''https://github.com/Mathew-Harvey/demo'' [] ''./''),
           Sleep 90],
          Inr None)"
proof -
  define tr where
    "tr = [Post (StaticSite ''mh-demo'' ''owner'' ''https://github.com/Mathew-Harvey/demo'' [] ''./''),
           Sleep 30,
           Post (StaticSite ''mh-demo'' ''owner'' ''https://github.com/Mathew-Harvey/demo'' [] ''./''),
           Sleep 60,
           Post (StaticSite ''mh-demo'' ''owner'' ''https://github.com/Mathew-Harvey/demo'' [] ''./''),
           Sleep 90]"
  have d: "deploy_to_render world_429 example_config example_project []
             = (tr, Inr (None, ''Rate limit exceeded after retries''))"
    unfolding tr_def by (rule deploy_to_render_world_429)
  from deploy_with_retry_no_fix_on_rate_limit
         [of world_429 example_config example_project 2 "[]" _ _ tr
            "''Rate limit exceeded after retries''" 1 "[2]"]
       d rate_limit_exhausted_indicator
  have "retry_attempts world_429 example_config example_project 2 [1, 2] [] = (tr, Inr None)"
    by blast
  then have "deploy_with_retry world_429 example_config example_project 2 [] = (tr, Inr None)"
    by (simp only: deploy_with_retry_def attempts_of_two)
  with rate_limit_exhausted_indicator show ?thesis
    unfolding tr_def by (rule conjI)
qed

text \<open>
  A failure that is no rate limit does reach the agent: after an answer 400 the fix
  prompt holds the error text of the attempt.
\<close>

lemma deploy_with_retry_world_400:
  "deploy_with_retry world_400 example_config example_project 2 []
     = ([Post (StaticSite ''mh-demo'' ''owner'' ''https://github.com/Mathew-Harvey/demo'' [] ''./''),
         Claude (FixPrompt ''Render API 400: must include serviceDetails'' ''demo'') 15],
        Inr None)"
proof -
  have s: "str_int 400 = ''400''" by code_simp
  have r: "\<not> rate_limited ''Render API 400: must include serviceDetails''" by code_simp
  have d: "deploy_to_render world_400 example_config example_project []
      = ([Post (StaticSite ''mh-demo'' ''owner'' ''https://github.com/Mathew-Harvey/demo'' [] ''./'')],
         Inr (None, ''Render API 400: must include serviceDetails''))"
    using s
    by (simp add: deploy_to_render_def world_400_def quiet_world_def example_config_def
          example_project_def build_render_payload_def Let_def upt_rec posts_def)
  have a: "\<not> agent world_400 k" for k
    by (simp add: world_400_def quiet_world_def)
  have n: "name example_project = ''demo''"
    by (simp add: example_project_def)
  show ?thesis
    by (simp add: deploy_with_retry_def attempts_of_two d Let_def r a n)
qed

section \<open>Properties of the orchestrator\<close>

lemma should_skip_repo_fst:
  "fst (should_skip_repo r)
     \<longleftrightarrow> lower (repo_name r) \<in> set SKIP_REPOS \<or> repo_fork r \<or> repo_archived r \<or> repo_size r = 0"
  by (simp add: should_skip_repo_def Let_def)

lemma should_skip_repo_reason: "fst (should_skip_repo r) \<Longrightarrow> snd (should_skip_repo r) \<noteq> []"
  by (simp add: should_skip_repo_def Let_def split: if_splits)

lemma cached_entry_Some:
  "cached_entry cfg m nm = Inr (Some existing)
     \<longleftrightarrow> SKIP_EXISTING cfg
         \<and> (\<exists>ps. projects m = Some ps \<and> ps nm = Some existing \<and> sticky_entry existing)"
  by (auto simp: cached_entry_def sticky_entry_def sticky_statuses_def
        split: option.splits if_splits)

lemma process_repo_cached:
  "cached_entry cfg m (repo_name r) = Inr (Some existing) \<Longrightarrow>
     process_repo w cfg r m t = (t, project_of_entry existing)"
  by (simp add: process_repo_def)

lemma process_new_skipped:
  assumes "fst (should_skip_repo r)"
  shows "\<exists>p. process_new w cfg r t = (t, Inr p) \<and> status p = status_value SKIPPED
             \<and> skip_reason p = snd (should_skip_repo r)"
proof -
  obtain reason where "should_skip_repo r = (True, reason)"
    using assms by (cases "should_skip_repo r") auto
  then show ?thesis
    by (simp add: process_new_def Let_def)
qed

text \<open>
  C4, as stated, fails: the repository \<open>.github\<close> is on the skip list and the ledger
  records it as deployed; with \<open>SKIP_EXISTING\<close> on, \<open>process_repo\<close> returns the record
  of the ledger, with status deployed.
\<close>

theorem process_repo_counterexample:
  "should_skip_repo dotgithub_repo = (True, ''In skip list'')
   \<and> process_repo quiet_world example_config dotgithub_repo dotgithub_manifest []
       = ([], Inr \<lparr>name = ''.github'',
                   github_url = ''https://github.com/Mathew-Harvey/.github'',
                   description = [], language = [], is_fork = False,
                   status = ''deployed'', deploy_url = ''https://mh-.github.onrender.com'',
                   render_service_id = [], tech_stack = [], category = [],
                   skip_reason = [], error = [], completed_at = [], gif_url = [],
                   existing_deploy_urls = []\<rparr>)"
proof -
  have n: "repo_name dotgithub_repo = ''.github''"
    by (simp add: dotgithub_repo_def)
  have l: "lower ''.github'' = ''.github''"
    by code_simp
  have s: "should_skip_repo dotgithub_repo = (True, ''In skip list'')"
    by (simp add: should_skip_repo_def n l SKIP_REPOS_def)
  have c: "cached_entry example_config dotgithub_manifest ''.github'' = Inr (Some dotgithub_entry)"
    by (simp add: cached_entry_def example_config_def dotgithub_manifest_def dotgithub_entry_def
          sticky_statuses_def)
  have i: "ill_typed_keys dotgithub_entry = []"
    by (simp add: ill_typed_keys_def dotgithub_entry_def str_keys_def)
  have p: "project_of_entry dotgithub_entry
       = Inr \<lparr>name = ''.github'',
               github_url = ''https://github.com/Mathew-Harvey/.github'',
               description = [], language = [], is_fork = False,
               status = ''deployed'', deploy_url = ''https://mh-.github.onrender.com'',
               render_service_id = [], tech_stack = [], category = [],
               skip_reason = [], error = [], completed_at = [], gif_url = [],
               existing_deploy_urls = []\<rparr>"
    unfolding project_of_entry_def i
    by (simp add: dotgithub_entry_def str_field_def bool_field_def strs_field_def)
  show ?thesis
    using s by (simp add: process_repo_def n c p)
qed

text \<open>
  C4, amended.  \<open>process_repo\<close> looks at the ledger first: with \<open>SKIP_EXISTING\<close> on
  and an entry of the repository with status deployed or already-live, it returns the
  record of that entry, with no effect, whatever the skip checks say.  Otherwise the
  skip checks come next: a repository on the skip list, a fork, an archived or an empty
  one is returned as skipped, with the reason of the check, with no effect.
\<close>

theorem process_repo_order:
  "(cached_entry cfg m (repo_name r) = Inr (Some existing)
      \<longleftrightarrow> SKIP_EXISTING cfg
          \<and> (\<exists>ps. projects m = Some ps \<and> ps (repo_name r) = Some existing
                   \<and> sticky_entry existing))
   \<and> (cached_entry cfg m (repo_name r) = Inr (Some existing)
        \<longrightarrow> process_repo w cfg r m t = (t, project_of_entry existing))
   \<and> (fst (should_skip_repo r)
        \<longleftrightarrow> lower (repo_name r) \<in> set SKIP_REPOS \<or> repo_fork r \<or> repo_archived r
            \<or> repo_size r = 0)
   \<and> (cached_entry cfg m (repo_name r) = Inr None \<and> fst (should_skip_repo r)
        \<longrightarrow> (\<exists>p. process_repo w cfg r m t = (t, Inr p)
                  \<and> status p = status_value SKIPPED
                  \<and> skip_reason p = snd (should_skip_repo r)
                  \<and> skip_reason p \<noteq> []))"
proof -
  have "\<exists>p. process_repo w cfg r m t = (t, Inr p) \<and> status p = status_value SKIPPED
             \<and> skip_reason p = snd (should_skip_repo r) \<and> skip_reason p \<noteq> []"
    if "cached_entry cfg m (repo_name r) = Inr None" "fst (should_skip_repo r)"
    using that process_new_skipped [OF that(2), of w cfg t] should_skip_repo_reason [OF that(2)]
    by (auto simp: process_repo_def)
  then show ?thesis
    using cached_entry_Some [of cfg m "repo_name r" existing]
      process_repo_cached [of cfg m r existing w t] should_skip_repo_fst [of r]
    by blast
qed

theorem process_repo_order_witness:
  "cached_entry example_config dotgithub_manifest (repo_name dotgithub_repo)
     = Inr (Some dotgithub_entry)
   \<and> process_repo quiet_world example_config dotgithub_repo dotgithub_manifest []
       = ([], project_of_entry dotgithub_entry)
   \<and> cached_entry example_config empty_manifest (repo_name fork_repo) = Inr None
   \<and> fst (should_skip_repo fork_repo)
   \<and> (\<exists>p. process_repo quiet_world example_config fork_repo empty_manifest [] = ([], Inr p)
          \<and> status p = ''skipped'' \<and> skip_reason p = ''Fork'')"
proof -
  have c1: "cached_entry example_config dotgithub_manifest (repo_name dotgithub_repo)
              = Inr (Some dotgithub_entry)"
    by (simp add: cached_entry_def example_config_def dotgithub_manifest_def dotgithub_entry_def
          sticky_statuses_def dotgithub_repo_def)
  have c2: "cached_entry example_config empty_manifest (repo_name fork_repo) = Inr None"
    by (simp add: cached_entry_def example_config_def empty_manifest_def)
  have l: "lower ''demo'' = ''demo''"
    by code_simp
  have s: "should_skip_repo fork_repo = (True, ''Fork'')"
    by (simp add: should_skip_repo_def fork_repo_def example_repo_def l SKIP_REPOS_def)
  then have f: "fst (should_skip_repo fork_repo)" and r: "snd (should_skip_repo fork_repo) = ''Fork''"
    by simp_all
  from process_repo_order
         [of example_config dotgithub_manifest dotgithub_repo dotgithub_entry quiet_world "[]"] c1
  have 1: "process_repo quiet_world example_config dotgithub_repo dotgithub_manifest []
             = ([], project_of_entry dotgithub_entry)"
    by blast
  from process_repo_order [of example_config empty_manifest fork_repo _ quiet_world "[]"] c2 f
  have "\<exists>p. process_repo quiet_world example_config fork_repo empty_manifest [] = ([], Inr p)
              \<and> status p = status_value SKIPPED
              \<and> skip_reason p = snd (should_skip_repo fork_repo)"
    by blast
  then have 2: "\<exists>p. process_repo quiet_world example_config fork_repo empty_manifest [] = ([], Inr p)
              \<and> status p = ''skipped'' \<and> skip_reason p = ''Fork''"
    by (simp only: r status_value.simps)
  from c1 1 c2 f 2 show ?thesis by blast
qed

section \<open>Properties of the pipeline\<close>

lemma list_all_is_probe_Get: "list_all is_probe (map Get urls)"
  by (induction urls) simp_all

lemma find_existing_deployment_effects:
  assumes "find_existing_deployment w cfg r t = (t0, is_live, url)"
  shows "\<exists>new. t0 = t @ new \<and> list_all is_probe new"
proof -
  let ?live = "\<lambda>u. \<not> live_response (http_get w u)"
  let ?cs = "get_candidate_urls cfg r"
  show ?thesis
  proof (cases "dropWhile ?live ?cs")
    case Nil
    with assms have "t0 = t @ map Get ?cs"
      by (simp add: find_existing_deployment_def probe_candidates_eq)
    then show ?thesis using list_all_is_probe_Get by blast
  next
    case (Cons u rest)
    with assms have "t0 = t @ map Get (takeWhile ?live ?cs @ [u])"
      by (auto simp: find_existing_deployment_def probe_candidates_eq)
    then show ?thesis using list_all_is_probe_Get by blast
  qed
qed

lemma fetch_files_raises:
  assumes "tree_fetch_raises w cfg r"
  shows "\<exists>new. fetch_files w cfg r t = (t @ new, []) \<and> list_all is_probe new"
proof (cases "tree_get w (tree_url cfg (repo_name r) ''main'')")
  case (TreeError e)
  then have "fetch_files w cfg r t = (t @ [TreeGet (tree_url cfg (repo_name r) ''main'')], [])"
    by (simp add: fetch_files_def Let_def)
  then show ?thesis by simp
next
  case main: (TreeResponse code body)
  show ?thesis
  proof (cases "code = 404")
    case False
    with main assms have "code = 200" "body = None"
      by (simp_all add: tree_fetch_raises_def)
    with main have "fetch_files w cfg r t = (t @ [TreeGet (tree_url cfg (repo_name r) ''main'')], [])"
      by (simp add: fetch_files_def Let_def files_of_response_def)
    then show ?thesis by simp
  next
    case True
    have "fetch_files w cfg r t
            = (t @ [TreeGet (tree_url cfg (repo_name r) ''main''),
                    TreeGet (tree_url cfg (repo_name r) ''master'')], [])"
    proof (cases "tree_get w (tree_url cfg (repo_name r) ''master'')")
      case (TreeError e)
      with main True show ?thesis
        by (simp add: fetch_files_def Let_def)
    next
      case (TreeResponse code2 body2)
      with main True assms have "code2 = 200" "body2 = None"
        by (simp_all add: tree_fetch_raises_def)
      with main True TreeResponse show ?thesis
        by (simp add: fetch_files_def Let_def files_of_response_def)
    qed
    then show ?thesis by simp
  qed
qed

lemma classify_raises:
  assumes "tree_fetch_raises w cfg r"
  shows "\<exists>new c. classify_repo_from_api w cfg r t = (t @ new, c) \<and> list_all is_probe new
           \<and> c_file_count c = 0"
proof -
  from fetch_files_raises [OF assms, of t] obtain new
    where "fetch_files w cfg r t = (t @ new, [])" "list_all is_probe new"
    by blast
  then show ?thesis
    by (simp add: classify_repo_from_api_def classify_files_def Let_def)
qed

text \<open>
  C10.  For a repository that does not return from the ledger, passes the skip checks
  and is not found live, a file-tree fetch that raises gives a file count of 0, and
  \<open>process_repo\<close> returns a record with status skipped and the reason of the empty
  repository; its effects are liveness and file-tree requests only, so no clone, no
  quick fix, no run of the agent, no push and no deployment.
\<close>

theorem process_repo_tree_fetch_raises:
  assumes "cached_entry cfg m (repo_name r) = Inr None"
    and "\<not> fst (should_skip_repo r)"
    and "find_existing_deployment w cfg r t = (t0, False, url)"
    and "tree_fetch_raises w cfg r"
  shows "\<exists>t' p new. process_repo w cfg r m t = (t', Inr p)
           \<and> status p = status_value SKIPPED
           \<and> skip_reason p = ''Empty or README-only repo''
           \<and> c_file_count (snd (classify_repo_from_api w cfg r t0)) = 0
           \<and> t' = t @ new \<and> list_all is_probe new"
proof -
  obtain reason where s: "should_skip_repo r = (False, reason)"
    using assms(2) by (cases "should_skip_repo r") auto
  from find_existing_deployment_effects [OF assms(3)] obtain new0
    where n0: "t0 = t @ new0" "list_all is_probe new0"
    by blast
  from classify_raises [OF assms(4), of t0] obtain new1 c
    where c: "classify_repo_from_api w cfg r t0 = (t0 @ new1, c)" "list_all is_probe new1"
      "c_file_count c = 0"
    by blast
  have "\<exists>p. process_repo w cfg r m t = (t0 @ new1, Inr p)
           \<and> status p = status_value SKIPPED
           \<and> skip_reason p = ''Empty or README-only repo''"
    using assms(1,3) s c by (simp add: process_repo_def process_new_def Let_def)
  moreover have "t0 @ new1 = t @ (new0 @ new1)" "list_all is_probe (new0 @ new1)"
    using n0 c(2) by simp_all
  moreover have "c_file_count (snd (classify_repo_from_api w cfg r t0)) = 0"
    using c by simp
  ultimately show ?thesis by blast
qed

theorem process_repo_tree_fetch_raises_witness:
  "\<exists>t' p. process_repo quiet_world example_config example_repo empty_manifest [] = (t', Inr p)
      \<and> status p = ''skipped''
      \<and> skip_reason p = ''Empty or README-only repo''
      \<and> list_all is_probe t'"
proof -
  have 1: "cached_entry example_config empty_manifest (repo_name example_repo) = Inr None"
    by (simp add: cached_entry_def example_config_def empty_manifest_def)
  have l: "lower ''demo'' = ''demo''"
    by code_simp
  have 2: "\<not> fst (should_skip_repo example_repo)"
    by (simp add: should_skip_repo_def example_repo_def l SKIP_REPOS_def)
  have "dropWhile (\<lambda>u. \<not> live_response (http_get quiet_world u))
          (get_candidate_urls example_config example_repo) = []"
    by (simp add: quiet_world_def live_response_def)
  then have 3: "find_existing_deployment quiet_world example_config example_repo []
      = ([] @ map Get (get_candidate_urls example_config example_repo), False, [])"
    by (simp only: find_existing_deployment_def probe_candidates_eq list.case)
  have 4: "tree_fetch_raises quiet_world example_config example_repo"
    by (simp add: tree_fetch_raises_def quiet_world_def)
  from process_repo_tree_fetch_raises [OF 1 2 3 4]
  obtain t' p new where
    "process_repo quiet_world example_config example_repo empty_manifest [] = (t', Inr p)"
    "status p = status_value SKIPPED" "skip_reason p = ''Empty or README-only repo''"
    "t' = [] @ new" "list_all is_probe new"
    by blast
  then have "process_repo quiet_world example_config example_repo empty_manifest [] = (t', Inr p)
      \<and> status p = ''skipped''
      \<and> skip_reason p = ''Empty or README-only repo''
      \<and> list_all is_probe t'"
    by simp
  then show ?thesis by blast
qed

section \<open>Properties of the records\<close>

lemma match_url_nonempty: "match_url s = Some m \<Longrightarrow> m \<noteq> []"
  by (auto simp: match_url_def Let_def split: if_splits)

lemma findall_urls_nonempty: "m \<in> set (findall_urls k s) \<Longrightarrow> m \<noteq> []"
  by (induction k s rule: findall_urls.induct)
     (auto split: option.splits dest: match_url_nonempty)

lemma candidate_nonempty: "u \<in> set (get_candidate_urls cfg r) \<Longrightarrow> u \<noteq> []"
  by (auto simp: get_candidate_urls_def Let_def set_dedupe
        split: option.splits if_splits dest: findall_urls_nonempty)

lemma probe_candidates_live:
  "probe_candidates w cs t = (t0, True, u) \<Longrightarrow> u \<in> set cs"
proof (induction cs arbitrary: t)
  case Nil
  then show ?case by simp
next
  case (Cons c cs)
  then show ?case
    by (cases "live_response (http_get w c)") (auto simp: check_url_live_def)
qed

lemma live_url_nonempty:
  "find_existing_deployment w cfg r t = (t0, True, u) \<Longrightarrow> u \<noteq> []"
  unfolding find_existing_deployment_def
  by (drule probe_candidates_live) (rule candidate_nonempty)

lemma process_new_cases:
  assumes "process_new w cfg r t = (t', Inr p)"
  shows "(status p = status_value SKIPPED \<and> skip_reason p \<noteq> [])
       \<or> (status p = status_value ALREADY_LIVE
            \<and> (\<exists>t0. find_existing_deployment w cfg r t = (t0, True, deploy_url p)))
       \<or> status p = status_value COMPLETED
       \<or> (status p = status_value FAILED \<and> error p \<noteq> [])
       \<or> (status p = status_value DEPLOYED \<and> deploy_url p \<noteq> [])"
proof (cases "fst (should_skip_repo r)")
  case True
  then obtain reason where s: "should_skip_repo r = (True, reason)" "reason \<noteq> []"
    by (cases "should_skip_repo r") (auto simp: should_skip_repo_def Let_def split: if_splits)
  with assms show ?thesis
    by (auto simp: process_new_def Let_def)
next
  case False
  then obtain reason where s: "should_skip_repo r = (False, reason)"
    by (cases "should_skip_repo r") auto
  obtain t0 is_live live_url where f: "find_existing_deployment w cfg r t = (t0, is_live, live_url)"
    by (cases "find_existing_deployment w cfg r t") auto
  obtain t1 c where c: "classify_repo_from_api w cfg r t0 = (t1, c)"
    by (cases "classify_repo_from_api w cfg r t0") auto
  show ?thesis
  proof (cases is_live)
    case True
    with assms s f c show ?thesis
      by (auto simp: process_new_def Let_def)
  next
    case False
    with assms s f c show ?thesis
      by (auto simp: process_new_def Let_def split: if_splits option.splits prod.splits sum.splits)
  qed
qed

lemma process_new_record_ok:
  assumes "process_new w cfg r t = (t', Inr p)"
  shows "record_ok p"
  using process_new_cases [OF assms] live_url_nonempty [of w cfg r t _ "deploy_url p"]
  by (auto simp: record_ok_def)

lemma project_of_entry_sticky:
  assumes "project_of_entry data = Inr p" and "sticky_entry data"
    and "data ''deploy_url'' = Some (JStr url)"
  shows "(status p = status_value DEPLOYED \<or> status p = status_value ALREADY_LIVE)
         \<and> deploy_url p = url"
  using assms
  by (auto simp: project_of_entry_def sticky_entry_def str_field_def
        split: if_splits list.splits)

lemma cached_record_ok:
  assumes "ledger_ok m" and "cached_entry cfg m nm = Inr (Some existing)"
    and "project_of_entry existing = Inr p"
  shows "record_ok p"
proof -
  from assms(2) obtain ps where e: "projects m = Some ps" "ps nm = Some existing"
      "sticky_entry existing"
    unfolding cached_entry_Some by blast
  with assms(1) obtain url where u: "existing ''deploy_url'' = Some (JStr url)" "url \<noteq> []"
    unfolding ledger_ok_def by blast
  from project_of_entry_sticky [OF assms(3) e(3) u(1)] u(2) show ?thesis
    by (auto simp: record_ok_def)
qed

lemma process_repo_record_ok_ledger:
  assumes "ledger_ok m" and "process_repo w cfg r m t = (t', Inr p)"
  shows "record_ok p"
proof (cases "cached_entry cfg m (repo_name r)")
  case (Inl e)
  with assms(2) show ?thesis by (simp add: process_repo_def)
next
  case (Inr c)
  show ?thesis
  proof (cases c)
    case None
    with Inr assms(2) have "process_new w cfg r t = (t', Inr p)"
      by (simp add: process_repo_def)
    then show ?thesis by (rule process_new_record_ok)
  next
    case (Some existing)
    with Inr assms(2) have "project_of_entry existing = Inr p"
      by (simp add: process_repo_def)
    with assms(1) Inr Some show ?thesis
      by (intro cached_record_ok [of m cfg "repo_name r" existing]) simp_all
  qed
qed

lemma sticky_reset_entry: "sticky_entry (reset_entry data) \<Longrightarrow> reset_entry data = data"
  by (auto simp: reset_entry_def sticky_entry_def split: if_splits)

lemma ledger_ok_reset:
  assumes "ledger_ok m"
  shows "ledger_ok (reset_manifest_for_retry m)"
proof (cases "projects m")
  case None
  then show ?thesis using assms by (simp add: reset_manifest_for_retry_def)
next
  case (Some ps)
  have "\<exists>url. data' ''deploy_url'' = Some (JStr url) \<and> url \<noteq> []"
    if "map_option reset_entry (ps n) = Some data'" "sticky_entry data'" for n data'
  proof -
    from that(1) obtain data where d: "ps n = Some data" "data' = reset_entry data"
      by auto
    with that(2) have "data' = data"
      using sticky_reset_entry [of data] by simp
    with assms Some d(1) that(2) show ?thesis
      unfolding ledger_ok_def by blast
  qed
  then show ?thesis
    using Some by (simp add: ledger_ok_def reset_manifest_for_retry_def)
qed

lemma asdict_status: "asdict p ''status'' = Some (JStr (status p))"
  by (simp add: asdict_def)

lemma asdict_deploy_url: "asdict p ''deploy_url'' = Some (JStr (deploy_url p))"
  by (simp add: asdict_def)

lemma ledger_ok_store:
  assumes "ledger_ok m" and "record_ok p" and "store_project m p = Inr m'"
  shows "ledger_ok m'"
proof -
  from assms(3) obtain ps where ps: "projects m = Some ps"
      "m' = m\<lparr>projects := Some (ps(name p \<mapsto> asdict p))\<rparr>"
    by (auto simp: store_project_def split: option.splits)
  have "\<exists>url. data ''deploy_url'' = Some (JStr url) \<and> url \<noteq> []"
    if "(ps(name p \<mapsto> asdict p)) n = Some data" "sticky_entry data" for n data
  proof (cases "n = name p")
    case True
    with that have d: "data = asdict p" by simp
    with that(2) have "status p = status_value DEPLOYED \<or> status p = status_value ALREADY_LIVE"
      by (simp add: sticky_entry_def asdict_status)
    with assms(2) have "deploy_url p \<noteq> []"
      by (auto simp: record_ok_def)
    then show ?thesis by (simp add: d asdict_deploy_url)
  next
    case False
    with that have "ps n = Some data" by simp
    with assms(1) ps(1) that(2) show ?thesis
      unfolding ledger_ok_def by blast
  qed
  then show ?thesis
    unfolding ledger_ok_def ps(2) by simp
qed

lemma ledger_ok_capture:
  assumes "ledger_ok m" and "capture_gifs gif_exists m = Inr m'"
  shows "ledger_ok m'"
proof -
  let ?f = "\<lambda>n data. if gif_exists n
                      then data(''gif_url'' \<mapsto> JStr (''gifs/'' @ n @ ''.gif'')) else data"
  from assms(2) obtain ps where ps: "projects m = Some ps"
      "m' = m\<lparr>projects := Some (\<lambda>n. map_option (?f n) (ps n))\<rparr>"
    by (auto simp: capture_gifs_def split: option.splits)
  have "\<exists>url. data' ''deploy_url'' = Some (JStr url) \<and> url \<noteq> []"
    if "map_option (?f n) (ps n) = Some data'" "sticky_entry data'" for n data'
  proof -
    from that(1) obtain data where d: "ps n = Some data" "data' = ?f n data"
      by auto
    from that(2) d(2) have "sticky_entry data"
      by (auto simp: sticky_entry_def split: if_splits)
    with assms(1) ps(1) d(1) obtain url where "data ''deploy_url'' = Some (JStr url)" "url \<noteq> []"
      unfolding ledger_ok_def by blast
    then show ?thesis
      by (auto simp: d(2))
  qed
  then show ?thesis
    unfolding ledger_ok_def ps(2) by simp
qed

lemma reachable_ledger_ok: "reachable m \<Longrightarrow> ledger_ok m"
proof (induction rule: reachable.induct)
  case initial
  show ?case by (simp add: ledger_ok_def)
next
  case (reset m)
  then show ?case by (simp add: ledger_ok_reset)
next
  case (saved m ts)
  then show ?case by (simp add: ledger_ok_def)
next
  case (processed m w cfg r t t' p m')
  from processed.IH processed.hyps(2) have "record_ok p"
    by (rule process_repo_record_ok_ledger)
  with processed.IH show ?case
    using processed.hyps(3) by (rule ledger_ok_store)
next
  case (captured m gif_exists m')
  then show ?case by (simp add: ledger_ok_capture)
next
  case (portfolio m url)
  then show ?case by (simp add: ledger_ok_def)
qed

lemma deploying_run:
  "process_repo deploying_world example_config example_repo empty_manifest []
     = ([Get ''https://mathew-harvey.github.io/demo/'',
         Get ''https://mathew-harvey.github.io/demo'',
         Get ''https://mh-demo.onrender.com'',
         Get ''https://demo.onrender.com'',
         TreeGet ''https://api.github.com/repos/Mathew-Harvey/demo/git/trees/main?recursive=1'',
         Clone ''https://github.com/Mathew-Harvey/demo.git'',
         Claude (Tier1Prompt ''demo'') 15,
         Push ''demo'',
         Post (StaticSite ''mh-demo'' ''owner'' ''https://github.com/Mathew-Harvey/demo'' [] ''./'')],
        Inr \<lparr>name = ''demo'', github_url = ''https://github.com/Mathew-Harvey/demo'',
               description = ''demo'', language = ''Python'', is_fork = False,
               status = ''deployed'', deploy_url = ''https://mh-demo.onrender.com'',
               render_service_id = [], tech_stack = [''Python'', ''Python''],
               category = ''api'', skip_reason = [], error = [],
               completed_at = ''2024-01-01T00:00:00'', gif_url = [],
               existing_deploy_urls = []\<rparr>)"
  by code_simp

text \<open>
  C6.  A ledger that runs of the program have produced holds a non-empty deploy URL in
  every entry with status deployed or already-live.  On such a ledger every record that
  \<open>process_repo\<close> returns has a non-empty deploy URL when its status is deployed or
  already-live, a non-empty skip reason when it is skipped, and a non-empty error when
  it is failed.  The records built without the ledger have these properties always.
\<close>

theorem process_repo_record_ok:
  "(reachable m \<longrightarrow> ledger_ok m)
   \<and> (ledger_ok m \<and> process_repo w cfg r m t = (t', Inr p) \<longrightarrow> record_ok p)
   \<and> (process_new w cfg r t = (t', Inr p) \<longrightarrow> record_ok p)"
  using reachable_ledger_ok [of m] process_repo_record_ok_ledger [of m w cfg r t t' p]
    process_new_record_ok [of w cfg r t t' p]
  by blast

theorem process_repo_record_ok_witness:
  "reachable empty_manifest
   \<and> (\<exists>t' p. process_repo deploying_world example_config example_repo empty_manifest []
                 = (t', Inr p)
             \<and> status p = ''deployed''
             \<and> deploy_url p = ''https://mh-demo.onrender.com''
             \<and> record_ok p)"
proof -
  define p where
    "p = \<lparr>name = ''demo'', github_url = ''https://github.com/Mathew-Harvey/demo'',
           description = ''demo'', language = ''Python'', is_fork = False,
           status = ''deployed'', deploy_url = ''https://mh-demo.onrender.com'',
           render_service_id = [], tech_stack = [''Python'', ''Python''],
           category = ''api'', skip_reason = [], error = [],
           completed_at = ''2024-01-01T00:00:00'', gif_url = [],
           existing_deploy_urls = []\<rparr>"
  obtain t' where run: "process_repo deploying_world example_config example_repo empty_manifest []
                     = (t', Inr p)"
    unfolding p_def using deploying_run by blast
  have r: "reachable empty_manifest"
    unfolding empty_manifest_def by (rule reachable.initial)
  from process_repo_record_ok [of empty_manifest] r
  have l: "ledger_ok empty_manifest"
    by blast
  from process_repo_record_ok [of empty_manifest deploying_world example_config example_repo "[]" t' p]
    l run
  have "record_ok p"
    by blast
  moreover have "status p = ''deployed''" "deploy_url p = ''https://mh-demo.onrender.com''"
    by (simp_all add: p_def)
  ultimately show ?thesis
    using r run by blast
qed

end
